theory Spec2Isabelle
  imports Main "HOL-Library.Multiset"
begin

section \<open>Values read from the scanner reports\<close>

text \<open>
  The three scripts work on what \<^verbatim>\<open>json.load\<close> returns. A JSON object is a Python
  dict: its items in insertion order, keys distinct, looked up with \<open>map_of\<close>. A
  float is kept as its lexeme; no function below computes with one. A Python string is
  kept as the UTF-8 bytes of its code points; a surrogate code point (U+D800 to U+DFFF,
  which a JSON escape such as \<^verbatim>\<open>\ud800\<close> alone produces) is kept as the three bytes
  that generalised UTF-8 gives it, \<open>0xED\<close>, then \<open>0xA0\<close> to \<open>0xBF\<close>, then a
  continuation byte.
\<close>

datatype json =
    JNull
  | JBool bool
  | JInt int
  | JFloat string
  | JStr string
  | JArr "json list"
  | JObj "(string \<times> json) list"

text \<open>
  The exceptions the scripts can meet; \<open>LoadError\<close> is whatever \<^verbatim>\<open>open\<close> or
  \<^verbatim>\<open>json.load\<close> raises on a file that cannot be read or parsed, and
  \<open>UnicodeEncodeError\<close> is raised by a write of text that cannot be encoded.
\<close>

datatype py_error = KeyError | TypeError | AttributeError | LoadError | UnicodeEncodeError

text \<open>Sequencing of fallible steps: the first exception raised is the result.\<close>

definition bind_err :: "py_error + 'a \<Rightarrow> ('a \<Rightarrow> py_error + 'b) \<Rightarrow> py_error + 'b" where
  "bind_err r f = (case r of Inl e \<Rightarrow> Inl e | Inr x \<Rightarrow> f x)"

text \<open>A \<^verbatim>\<open>for x in xs: ...\<close> loop that updates a state and stops at the first exception.\<close>

fun for_each :: "('s \<Rightarrow> 'a \<Rightarrow> py_error + 's) \<Rightarrow> 's \<Rightarrow> 'a list \<Rightarrow> py_error + 's" where
  "for_each body s [] = Inr s"
| "for_each body s (x # xs) = bind_err (body s x) (\<lambda>s'. for_each body s' xs)"

text \<open>
  \<^verbatim>\<open>v.get(key, default)\<close>: only a dict has the method.
\<close>

fun py_get :: "json \<Rightarrow> string \<Rightarrow> json \<Rightarrow> py_error + json" where
  "py_get (JObj d) k dflt = Inr (case map_of d k of None \<Rightarrow> dflt | Some v \<Rightarrow> v)"
| "py_get _ k dflt = Inl AttributeError"

text \<open>
  \<^verbatim>\<open>v[key]\<close> with a string key: a missing key of a dict is a KeyError, a list or a
  string refuses a string index and the other values are not subscriptable.
\<close>

fun py_subscript :: "json \<Rightarrow> string \<Rightarrow> py_error + json" where
  "py_subscript (JObj d) k = (case map_of d k of None \<Rightarrow> Inl KeyError | Some v \<Rightarrow> Inr v)"
| "py_subscript _ k = Inl TypeError"

text \<open>
  \<^verbatim>\<open>key in v\<close> with a string key: a key of a dict, an element of a list, a substring
  of a string; the other values are not containers.
\<close>

fun is_substring :: "string \<Rightarrow> string \<Rightarrow> bool" where
  "is_substring k [] = (k = [])"
| "is_substring k (c # s) = (take (length k) (c # s) = k \<or> is_substring k s)"

fun py_in :: "string \<Rightarrow> json \<Rightarrow> py_error + bool" where
  "py_in k (JObj d) = Inr (map_of d k \<noteq> None)"
| "py_in k (JArr xs) = Inr (JStr k \<in> set xs)"
| "py_in k (JStr s) = Inr (is_substring k s)"
| "py_in k _ = Inl TypeError"

text \<open>
  What a \<^verbatim>\<open>for\<close> loop (or \<^verbatim>\<open>list.extend\<close>) iterates over: the elements of a list,
  the keys of a dict, the characters of a string.
\<close>

fun py_iter :: "json \<Rightarrow> py_error + json list" where
  "py_iter (JArr xs) = Inr xs"
| "py_iter (JObj d) = Inr (map (\<lambda>kv. JStr (fst kv)) d)"
| "py_iter (JStr s) = Inr (map (\<lambda>c. JStr [c]) s)"
| "py_iter _ = Inl TypeError"

text \<open>
  \<^verbatim>\<open>v.lower()\<close>: a method of strings only. The strings here are UTF-8 bytes, and
  only the ASCII capitals are mapped; the results are only ever compared with
  \<^verbatim>\<open>'high'\<close>, \<^verbatim>\<open>'medium'\<close> and \<^verbatim>\<open>'low'\<close>, whose letters no non-ASCII
  character lower-cases to.
\<close>

definition lower_char :: "char \<Rightarrow> char" where
  "lower_char c =
     (case map_of (zip ''ABCDEFGHIJKLMNOPQRSTUVWXYZ'' ''abcdefghijklmnopqrstuvwxyz'') c of
        None \<Rightarrow> c
      | Some l \<Rightarrow> l)"

definition str_lower :: "string \<Rightarrow> string" where
  "str_lower s = map lower_char s"

fun py_lower :: "json \<Rightarrow> py_error + string" where
  "py_lower (JStr s) = Inr (str_lower s)"
| "py_lower _ = Inl AttributeError"

section \<open>process-slither.py\<close>

record categories =
  critical :: "json list"
  high :: "json list"
  medium :: "json list"
  low :: "json list"
  informational :: "json list"

definition empty_categories :: categories where
  "empty_categories =
     \<lparr>critical = [], high = [], medium = [], low = [], informational = []\<rparr>"

text \<open>
  \<^verbatim>\<open>load_slither_report\<close>: the argument is what opening and parsing the file gave,
  \<open>None\<close> when either raised; the handler then returns the empty dict.
\<close>

definition load_slither_report :: "json option \<Rightarrow> json" where
  "load_slither_report loaded = (case loaded of None \<Rightarrow> JObj [] | Some v \<Rightarrow> v)"

text \<open>The body of the loop of \<^verbatim>\<open>categorize_findings\<close>.\<close>

definition categorize_detector :: "categories \<Rightarrow> json \<Rightarrow> py_error + categories" where
  "categorize_detector cats detector =
     bind_err (py_get detector ''impact'' (JStr [])) (\<lambda>iv.
     bind_err (py_lower iv) (\<lambda>impact.
     bind_err (py_get detector ''confidence'' (JStr [])) (\<lambda>cv.
     bind_err (py_lower cv) (\<lambda>confidence.
       Inr (if impact = ''high'' \<and> confidence = ''high''
            then cats\<lparr>critical := critical cats @ [detector]\<rparr>
            else if (impact = ''high'' \<and> confidence = ''medium'') \<or>
                    (impact = ''medium'' \<and> confidence = ''high'')
            then cats\<lparr>high := high cats @ [detector]\<rparr>
            else if (impact = ''medium'' \<and> confidence = ''medium'') \<or>
                    (impact = ''high'' \<and> confidence = ''low'')
            then cats\<lparr>medium := medium cats @ [detector]\<rparr>
            else if impact = ''low'' \<or> confidence = ''low''
            then cats\<lparr>low := low cats @ [detector]\<rparr>
            else cats\<lparr>informational := informational cats @ [detector]\<rparr>)))))"

definition categorize_findings :: "json \<Rightarrow> py_error + categories" where
  "categorize_findings results =
     bind_err (py_in ''results'' results) (\<lambda>present.
       if \<not> present then Inr empty_categories
       else
         bind_err (py_subscript results ''results'') (\<lambda>r.
         bind_err (py_subscript r ''detectors'') (\<lambda>ds.
         bind_err (py_iter ds) (\<lambda>detectors.
           for_each categorize_detector empty_categories detectors))))"


subsection \<open>Text written to files and to standard output\<close>

text \<open>
  An f-string is kept as its pieces: the literal text (UTF-8 bytes) and the values
  interpolated into it, \<open>Shown v\<close> standing for \<^verbatim>\<open>str(v)\<close>. \<open>ErrorText\<close> is the
  message of an exception caught while loading a file, which the model does not
  determine.
\<close>

datatype piece = Text string | Shown json | ErrorText

text \<open>
  Output files and standard output encode their text as UTF-8 with the strict error
  handler, as in the UTF-8 locale of a CI runner. Every code point but a surrogate can
  then be encoded, so a write fails exactly when its text holds a surrogate.
\<close>

fun has_surrogate :: "string \<Rightarrow> bool" where
  "has_surrogate (a # b # s) =
     ((a = CHR 0xED \<and> 0xA0 \<le> (of_char b :: nat) \<and> (of_char b :: nat) \<le> 0xBF) \<or>
      has_surrogate (b # s))"
| "has_surrogate _ = False"

text \<open>
  Whether a piece can be encoded. \<^verbatim>\<open>str\<close> of a string is the string; of a number,
  \<^verbatim>\<open>None\<close> or a truth value it is ASCII; of a list or a dict it is their
  \<^verbatim>\<open>repr\<close>, which writes a surrogate inside a string as an escape. The messages of
  the exceptions that loading a file raises are ASCII text and the \<^verbatim>\<open>repr\<close> of the
  file name.
\<close>

fun piece_encodable :: "piece \<Rightarrow> bool" where
  "piece_encodable (Text s) = (\<not> has_surrogate s)"
| "piece_encodable (Shown (JStr s)) = (\<not> has_surrogate s)"
| "piece_encodable (Shown v) = True"
| "piece_encodable ErrorText = True"

text \<open>
  What a function has written to its file so far, and the exception that ended it
  early, if any. \<open>wr\<close> is one call of \<^verbatim>\<open>f.write\<close>: the text is encoded first, and
  when that raises nothing of it reaches the file.
\<close>

type_synonym written = "piece list \<times> py_error option"

definition wr :: "piece list \<Rightarrow> written" where
  "wr ps = (if list_all piece_encodable ps then (ps, None) else ([], Some UnicodeEncodeError))"

definition then_wr :: "written \<Rightarrow> written \<Rightarrow> written" where
  "then_wr a b = (case snd a of Some e \<Rightarrow> a | None \<Rightarrow> (fst a @ fst b, snd b))"

definition wr_seq :: "written list \<Rightarrow> written" where
  "wr_seq ws = foldr then_wr ws (wr [])"

definition shown_len :: "'a list \<Rightarrow> piece" where
  "shown_len xs = Shown (JInt (int (length xs)))"

definition snake :: string where "snake = [CHR 0xF0, CHR 0x9F, CHR 0x90, CHR 0x8D]"
definition check_mark :: string where "check_mark = [CHR 0xE2, CHR 0x9C, CHR 0x85]"
definition bar_chart :: string where "bar_chart = [CHR 0xF0, CHR 0x9F, CHR 0x93, CHR 0x8A]"
definition siren :: string where "siren = [CHR 0xF0, CHR 0x9F, CHR 0x9A, CHR 0xA8]"
definition warning_sign :: string where
  "warning_sign = [CHR 0xE2, CHR 0x9A, CHR 0xA0, CHR 0xEF, CHR 0xB8, CHR 0x8F]"
definition orange_diamond :: string where "orange_diamond = [CHR 0xF0, CHR 0x9F, CHR 0x94, CHR 0xB6]"
definition blue_diamond :: string where "blue_diamond = [CHR 0xF0, CHR 0x9F, CHR 0x94, CHR 0xB7]"
definition wrench :: string where "wrench = [CHR 0xF0, CHR 0x9F, CHR 0x94, CHR 0xA7]"
definition memo :: string where "memo = [CHR 0xF0, CHR 0x9F, CHR 0x93, CHR 0x9D]"
definition cross_mark :: string where "cross_mark = [CHR 0xE2, CHR 0x9D, CHR 0x8C]"
definition crystal_ball :: string where "crystal_ball = [CHR 0xF0, CHR 0x9F, CHR 0x94, CHR 0xAE]"
definition magnifier :: string where "magnifier = [CHR 0xF0, CHR 0x9F, CHR 0x94, CHR 0x8D]"

subsection \<open>Paths\<close>

text \<open>\<^verbatim>\<open>os.path.dirname\<close> and \<^verbatim>\<open>os.path.join\<close> (two arguments) on POSIX.\<close>

definition os_path_dirname :: "string \<Rightarrow> string" where
  "os_path_dirname p =
     (let head = rev (dropWhile (\<lambda>c. c \<noteq> CHR ''/'') (rev p))
      in if head = [] then head
         else if filter (\<lambda>c. c \<noteq> CHR ''/'') head = [] then head
         else rev (dropWhile (\<lambda>c. c = CHR ''/'') (rev head)))"

definition os_path_join :: "string \<Rightarrow> string \<Rightarrow> string" where
  "os_path_join a b =
     (if take 1 b = ''/'' then b
      else if a = [] then b
      else if last a = CHR ''/'' then a @ b
      else a @ ''/'' @ b)"

subsection \<open>The Markdown summary and the critical-issues file\<close>

definition total_findings :: "categories \<Rightarrow> nat" where
  "total_findings c =
     length (critical c) + length (high c) + length (medium c) + length (low c) +
     length (informational c)"

definition finding_line :: "json \<Rightarrow> py_error + piece list" where
  "finding_line finding =
     bind_err (py_subscript finding ''check'') (\<lambda>c.
     bind_err (py_subscript finding ''description'') (\<lambda>d.
       Inr [Text ''- **'', Shown c, Text ''**: '', Shown d, Text ''\<newline>'']))"

fun write_each :: "(json \<Rightarrow> py_error + piece list) \<Rightarrow> json list \<Rightarrow> written" where
  "write_each line [] = wr []"
| "write_each line (x # rest) =
     (case line x of
        Inl e \<Rightarrow> ([], Some e)
      | Inr ps \<Rightarrow> then_wr (wr ps) (write_each line rest))"

definition listed_section :: "string \<Rightarrow> json list \<Rightarrow> written" where
  "listed_section title findings =
     (if findings = [] then wr []
      else wr_seq
        [wr [Text title, shown_len findings, Text ''\<newline>''],
         write_each finding_line findings,
         wr [Text ''\<newline>'']])"

definition generate_summary_markdown :: "categories \<Rightarrow> written" where
  "generate_summary_markdown c =
     then_wr (wr [Text (''# '' @ snake @ '' Slither Security Analysis Summary\<newline>\<newline>'')])
       (if total_findings c = 0
        then wr_seq
          [wr [Text (check_mark @ '' **No security issues found!**\<newline>\<newline>'')],
           wr [Text ''The PayRox Go Beyond contracts passed all Slither security checks.\<newline>'']]
        else wr_seq
          [wr [Text (bar_chart @ '' **Total Findings**: ''),
               Shown (JInt (int (total_findings c))), Text ''\<newline>\<newline>''],
           listed_section (siren @ '' **Critical Issues**: '') (critical c),
           listed_section (warning_sign @ '' **High Severity**: '') (high c),
           listed_section (orange_diamond @ '' **Medium Severity**: '') (medium c),
           (if low c = [] then wr []
            else wr_seq
              [wr [Text (blue_diamond @ '' **Low Severity**: ''), shown_len (low c),
                   Text ''\<newline>''],
               wr [Text ''*(Note: '', shown_len (low c),
                   Text '' low-severity findings - see full report for details)*\<newline>\<newline>'']]),
           wr [Text (''## '' @ wrench @ '' Recommendations\<newline>\<newline>'')],
           (if critical c = [] then wr []
            else wr [Text ''1. **Immediate Action Required**: Address all critical issues before deployment\<newline>'']),
           (if high c = [] then wr []
            else wr [Text ''2. **High Priority**: Review and fix high-severity findings\<newline>'']),
           (if medium c = [] then wr []
            else wr [Text ''3. **Medium Priority**: Consider fixing medium-severity findings\<newline>'']),
           wr [Text (''\<newline>'' @ memo @ '' *Full detailed report available in security artifacts*\<newline>'')]])"

text \<open>\<^verbatim>\<open>save_critical_issues\<close>: the value handed to \<^verbatim>\<open>json.dump\<close>.\<close>

definition save_critical_issues :: "categories \<Rightarrow> json" where
  "save_critical_issues c = JArr (critical c)"

subsection \<open>The process\<close>

text \<open>
  What the scripts see of the file system: whether a path exists, what opening and
  parsing the file at a path gives (\<open>None\<close> when that raises), and what a glob
  pattern matches. Opening an output file for writing is taken to succeed; a write to
  it fails when its text cannot be encoded, and so does a \<^verbatim>\<open>print\<close>. The lines the
  scripts print hold ASCII text, the emoji and counts, which can always be encoded,
  except where a path is printed.
\<close>

record filesystem =
  path_exists :: "string \<Rightarrow> bool"
  json_at :: "string \<Rightarrow> json option"
  glob_glob :: "string \<Rightarrow> string list"

datatype file_content = Markdown "piece list" | JsonDump json

text \<open>
  How a run ends: \<^verbatim>\<open>sys.exit(n)\<close>, falling off the end of \<^verbatim>\<open>main\<close>, or an
  exception nobody catches (the interpreter prints the traceback and exits with 1).
\<close>

datatype outcome = Exit int | Returned | Uncaught py_error

fun exit_status :: "outcome \<Rightarrow> int" where
  "exit_status (Exit n) = n"
| "exit_status Returned = 0"
| "exit_status (Uncaught e) = 1"

record run =
  files :: "(string \<times> file_content) list"
  stdout :: "piece list list"
  outcome :: outcome

text \<open>What \<^verbatim>\<open>load_slither_report\<close> prints: one line when loading raised.\<close>

definition load_slither_printed :: "json option \<Rightarrow> piece list list" where
  "load_slither_printed loaded =
     (case loaded of
        None \<Rightarrow> [[Text ''Error loading Slither report: '', ErrorText]]
      | Some v \<Rightarrow> [])"

definition process_slither_main :: "filesystem \<Rightarrow> string list \<Rightarrow> run" where
  "process_slither_main fs argv =
     (if length argv \<noteq> 2
      then \<lparr>files = [],
            stdout = [[Text ''Usage: python3 process-slither.py <slither-report.json>'']],
            outcome = Exit 1\<rparr>
      else
        let report_path = argv ! 1;
            output_dir = os_path_dirname report_path;
            summary_path = os_path_join output_dir ''slither-summary.md'';
            critical_path = os_path_join output_dir ''critical-issues.json''
        in
        if \<not> path_exists fs report_path
        then (if piece_encodable (Text report_path)
              then \<lparr>files = [],
                    stdout = [[Text ''Error: Report file '', Text report_path,
                               Text '' not found'']],
                    outcome = Exit 1\<rparr>
              else \<lparr>files = [], stdout = [], outcome = Uncaught UnicodeEncodeError\<rparr>)
        else
          let loaded = json_at fs report_path;
              printed = load_slither_printed loaded
          in
          case categorize_findings (load_slither_report loaded) of
            Inl e \<Rightarrow> \<lparr>files = [], stdout = printed, outcome = Uncaught e\<rparr>
          | Inr c \<Rightarrow>
              (case generate_summary_markdown c of
                 (md, Some e) \<Rightarrow>
                   \<lparr>files = [(summary_path, Markdown md)], stdout = printed,
                    outcome = Uncaught e\<rparr>
               | (md, None) \<Rightarrow>
                   \<lparr>files = [(summary_path, Markdown md),
                             (critical_path, JsonDump (save_critical_issues c))],
                    stdout = printed @
                      [[Text ''Slither analysis complete:''],
                       [Text ''  Critical: '', shown_len (critical c)],
                       [Text ''  High: '', shown_len (high c)],
                       [Text ''  Medium: '', shown_len (medium c)],
                       [Text ''  Low: '', shown_len (low c)],
                       [Text ''  Total: '', Shown (JInt (int (total_findings c)))],
                       (if critical c \<noteq> []
                        then [Text (cross_mark @ '' Critical issues found - failing build'')]
                        else [Text (check_mark @ '' No critical issues found'')])],
                    outcome = Exit (if critical c \<noteq> [] then 1 else 0)\<rparr>))"


section \<open>process-mythril.py\<close>




text \<open>
  The dict of \<^verbatim>\<open>categorize_mythril_findings\<close>, its items in insertion order (the order
  \<^verbatim>\<open>.items()\<close> gives); no key is ever added.
\<close>

type_synonym groups = "(string \<times> json list) list"

definition initial_groups :: groups where
  "initial_groups = [(''High'', []), (''Medium'', []), (''Low'', [])]"

text \<open>\<^verbatim>\<open>categories[k].append(v)\<close> for a key the dict has.\<close>

definition group_append :: "groups \<Rightarrow> string \<Rightarrow> json \<Rightarrow> groups" where
  "group_append cats k v = map (\<lambda>(k', vs). if k' = k then (k', vs @ [v]) else (k', vs)) cats"

text \<open>\<^verbatim>\<open>categories.get(k, [])\<close>.\<close>

definition group_get :: "groups \<Rightarrow> string \<Rightarrow> json list" where
  "group_get cats k = (case map_of cats k of None \<Rightarrow> [] | Some vs \<Rightarrow> vs)"

text \<open>
  \<^verbatim>\<open>severity in categories\<close>: the key when the value is a string the dict has, none
  for the other hashable values; a list or a dict cannot be hashed.
\<close>

fun known_key :: "json \<Rightarrow> groups \<Rightarrow> py_error + string option" where
  "known_key (JStr s) cats = Inr (if map_of cats s \<noteq> None then Some s else None)"
| "known_key (JArr xs) cats = Inl TypeError"
| "known_key (JObj d) cats = Inl TypeError"
| "known_key _ cats = Inr None"

definition categorize_issue :: "groups \<Rightarrow> json \<Rightarrow> py_error + groups" where
  "categorize_issue cats issue =
     bind_err (py_get issue ''severity'' (JStr ''Low'')) (\<lambda>severity.
     bind_err (known_key severity cats) (\<lambda>known.
       Inr (case known of
              Some k \<Rightarrow> group_append cats k issue
            | None \<Rightarrow> group_append cats ''Low'' issue)))"

definition categorize_mythril_findings :: "json list \<Rightarrow> py_error + groups" where
  "categorize_mythril_findings issues = for_each categorize_issue initial_groups issues"

fun map_err :: "('a \<Rightarrow> py_error + 'b) \<Rightarrow> 'a list \<Rightarrow> py_error + 'b list" where
  "map_err f [] = Inr []"
| "map_err f (x # xs) = bind_err (f x) (\<lambda>y. bind_err (map_err f xs) (\<lambda>ys. Inr (y # ys)))"

definition summary_record :: "string \<Rightarrow> json \<Rightarrow> py_error + json" where
  "summary_record severity issue =
     bind_err (py_get issue ''title'' (JStr ''Unknown Issue'')) (\<lambda>title.
     bind_err (py_get issue ''description'' (JStr [])) (\<lambda>description.
     bind_err (py_get issue ''filename'' (JStr ''Unknown'')) (\<lambda>contract.
     bind_err (py_get issue ''function'' (JStr ''Unknown'')) (\<lambda>function.
     bind_err (py_get issue ''swc-id'' (JStr [])) (\<lambda>swc_id.
       Inr (JObj [(''severity'', JStr severity), (''title'', title),
                  (''description'', description), (''contract'', contract),
                  (''function'', function), (''swc_id'', swc_id)]))))))"

definition all_issues :: "groups \<Rightarrow> py_error + json list" where
  "all_issues cats =
     bind_err (map_err (\<lambda>(severity, issues). map_err (summary_record severity) issues) cats)
       (\<lambda>rs. Inr (concat rs))"

text \<open>\<^verbatim>\<open>s.split(sep)\<close> for a one-character separator, and \<^verbatim>\<open>v.split('/')[-1]\<close>.\<close>

fun str_split :: "char \<Rightarrow> string \<Rightarrow> string list" where
  "str_split sep [] = [[]]"
| "str_split sep (c # s) =
     (if c = sep then [] # str_split sep s
      else (case str_split sep s of
              [] \<Rightarrow> [[c]]
            | w # ws \<Rightarrow> (c # w) # ws))"

fun split_last :: "json \<Rightarrow> py_error + string" where
  "split_last (JStr s) = Inr (last (str_split (CHR ''/'') s))"
| "split_last _ = Inl AttributeError"

definition issue_line :: "json \<Rightarrow> py_error + piece list" where
  "issue_line issue =
     bind_err (py_get issue ''title'' (JStr ''Unknown Issue'')) (\<lambda>title.
     bind_err (py_get issue ''filename'' (JStr ''Unknown'')) (\<lambda>filename.
     bind_err (split_last filename) (\<lambda>contract.
       Inr [Text ''- **'', Shown title, Text ''** in `'', Shown (JStr contract),
            Text ''`\<newline>''])))"

definition severity_icon :: "string \<Rightarrow> py_error + string" where
  "severity_icon severity =
     (case map_of [(''High'', siren), (''Medium'', warning_sign), (''Low'', orange_diamond)]
             severity of
        None \<Rightarrow> Inl KeyError
      | Some icon \<Rightarrow> Inr icon)"

definition severity_section :: "groups \<Rightarrow> string \<Rightarrow> written" where
  "severity_section cats severity =
     (let severity_issues = group_get cats severity
      in if severity_issues = [] then wr []
         else (case severity_icon severity of
                 Inl e \<Rightarrow> ([], Some e)
               | Inr icon \<Rightarrow>
                   wr_seq
                     [wr [Shown (JStr icon), Text '' **'', Shown (JStr severity),
                          Text '' Severity**: '', shown_len severity_issues,
                          Text '' issues\<newline>\<newline>''],
                      write_each issue_line (take 5 severity_issues),
                      (if length severity_issues > 5
                       then wr [Text ''- *(and '',
                                Shown (JInt (int (length severity_issues) - 5)),
                                Text '' more)*\<newline>'']
                       else wr []),
                      wr [Text ''\<newline>'']]))"

definition mythril_markdown :: "groups \<Rightarrow> nat \<Rightarrow> written" where
  "mythril_markdown cats total_issues =
     then_wr (wr [Text (''# '' @ crystal_ball @ '' Mythril Symbolic Analysis Summary\<newline>\<newline>'')])
       (if total_issues = 0
        then wr_seq
          [wr [Text (check_mark @ '' **No vulnerabilities detected!**\<newline>\<newline>'')],
           wr [Text ''Mythril symbolic execution found no security issues in the analyzed contracts.\<newline>'']]
        else wr_seq
          [wr [Text (bar_chart @ '' **Total Issues Found**: ''),
               Shown (JInt (int total_issues)), Text ''\<newline>\<newline>''],
           severity_section cats ''High'',
           severity_section cats ''Medium'',
           severity_section cats ''Low'',
           wr [Text (''## '' @ magnifier @ '' Analysis Notes\<newline>\<newline>'')],
           wr [Text ''- Mythril uses symbolic execution to find potential vulnerabilities\<newline>''],
           wr [Text ''- Some findings may be false positives - manual review recommended\<newline>''],
           wr [Text ''- Focus on High severity issues for immediate attention\<newline>''],
           wr [Text (''\<newline>'' @ memo @ '' *Detailed analysis available in security artifacts*\<newline>'')]])"

text \<open>
  \<^verbatim>\<open>generate_mythril_summary\<close>: the files written, in order, and the exception that
  ended the function early, if any.
\<close>

definition generate_mythril_summary ::
    "groups \<Rightarrow> string \<Rightarrow> (string \<times> file_content) list \<times> py_error option" where
  "generate_mythril_summary cats output_dir =
     (let summary_path = os_path_join output_dir ''mythril-summary.json'';
          markdown_path = os_path_join output_dir ''mythril-summary.md''
      in case all_issues cats of
           Inl e \<Rightarrow> ([], Some e)
         | Inr records \<Rightarrow>
             (case mythril_markdown cats (length records) of
                (md, err) \<Rightarrow>
                  ([(summary_path, JsonDump (JArr records)), (markdown_path, Markdown md)],
                   err)))"


section \<open>generate-security-summary.py\<close>

record slither_data =
  has_summary :: bool
  critical_issues :: int
  total_issues :: int
  summary_content :: string

text \<open>
  The last two fields are \<^verbatim>\<open>total_issues\<close> and \<^verbatim>\<open>summary_content\<close> in the source;
  the names are taken by the record above.
\<close>

record mythril_data =
  has_results :: bool
  high_severity :: int
  medium_severity :: int
  low_severity :: int
  mythril_total_issues :: int
  mythril_summary_content :: string

record security_score =
  score :: int
  status :: string
  color :: string
  issues :: "piece list list"

definition calculate_security_score :: "slither_data \<Rightarrow> mythril_data \<Rightarrow> security_score" where
  "calculate_security_score sd md =
     (let score0 = 100;
          issues0 = [];
          score1 = (if critical_issues sd > 0 then score0 - critical_issues sd * 25 else score0);
          issues1 = (if critical_issues sd > 0
                     then issues0 @ [[Shown (JInt (critical_issues sd)),
                                      Text '' critical Slither issues'']]
                     else issues0);
          score2 = (if high_severity md > 0 then score1 - high_severity md * 15 else score1);
          issues2 = (if high_severity md > 0
                     then issues1 @ [[Shown (JInt (high_severity md)),
                                      Text '' high-severity Mythril issues'']]
                     else issues1);
          medium_total = medium_severity md;
          score3 = (if medium_total > 0 then score2 - medium_total * 5 else score2);
          issues3 = (if medium_total > 0
                     then issues2 @ [[Shown (JInt medium_total),
                                      Text '' medium-severity issues'']]
                     else issues2)
      in \<lparr>score = max 0 score3,
          status = (if score3 \<ge> 95 then ''EXCELLENT''
                    else if score3 \<ge> 85 then ''GOOD''
                    else if score3 \<ge> 70 then ''FAIR''
                    else ''NEEDS_ATTENTION''),
          color = (if score3 \<ge> 95 then ''green''
                   else if score3 \<ge> 85 then ''yellowgreen''
                   else if score3 \<ge> 70 then ''orange''
                   else ''red''),
          issues = issues3\<rparr>)"


section \<open>The specification's classification rules\<close>

text \<open>
  The tiers of the static-analysis processor and its rule table, row by row as the
  specification gives it; the first row that matches decides, and a pair no row
  matches is informational.
\<close>

datatype tier = Critical | High | Medium | Low | Informational

definition tier_table :: "((string \<times> string \<Rightarrow> bool) \<times> tier) list" where
  "tier_table =
     [(\<lambda>(impact, confidence). impact = ''high'' \<and> confidence = ''high'', Critical),
      (\<lambda>(impact, confidence). impact = ''high'' \<and> confidence = ''medium'', High),
      (\<lambda>(impact, confidence). impact = ''medium'' \<and> confidence = ''high'', High),
      (\<lambda>(impact, confidence). impact = ''medium'' \<and> confidence = ''medium'', Medium),
      (\<lambda>(impact, confidence). impact = ''high'' \<and> confidence = ''low'', Medium),
      (\<lambda>(impact, confidence). impact = ''low'' \<or> confidence = ''low'', Low)]"

definition spec_tier :: "string \<times> string \<Rightarrow> tier" where
  "spec_tier labels =
     (case find (\<lambda>row. fst row labels) tier_table of
        Some row \<Rightarrow> snd row
      | None \<Rightarrow> Informational)"

text \<open>
  A label of a detector record, lower-cased; the empty string when the record has no
  such field.
\<close>

definition label_of :: "json \<Rightarrow> string \<Rightarrow> string" where
  "label_of d k =
     (case d of
        JObj fs \<Rightarrow> (case map_of fs k of Some (JStr s) \<Rightarrow> str_lower s | _ \<Rightarrow> [])
      | _ \<Rightarrow> [])"

definition detector_tier :: "json \<Rightarrow> tier" where
  "detector_tier d = spec_tier (label_of d ''impact'', label_of d ''confidence'')"

definition is_critical :: "json \<Rightarrow> bool" where
  "is_critical d = (label_of d ''impact'' = ''high'' \<and> label_of d ''confidence'' = ''high'')"

definition tiers_of :: "json list \<Rightarrow> categories" where
  "tiers_of ds =
     \<lparr>critical = filter (\<lambda>d. detector_tier d = Critical) ds,
      high = filter (\<lambda>d. detector_tier d = High) ds,
      medium = filter (\<lambda>d. detector_tier d = Medium) ds,
      low = filter (\<lambda>d. detector_tier d = Low) ds,
      informational = filter (\<lambda>d. detector_tier d = Informational) ds\<rparr>"

definition cat_append :: "categories \<Rightarrow> categories \<Rightarrow> categories" where
  "cat_append a b =
     \<lparr>critical = critical a @ critical b, high = high a @ high b,
      medium = medium a @ medium b, low = low a @ low b,
      informational = informational a @ informational b\<rparr>"

text \<open>
  A detector record: a dict whose impact and confidence, where present, are strings.
\<close>

fun str_or_absent :: "json option \<Rightarrow> bool" where
  "str_or_absent None = True"
| "str_or_absent (Some (JStr s)) = True"
| "str_or_absent (Some _) = False"

fun labelled :: "json \<Rightarrow> bool" where
  "labelled (JObj fs) =
     (str_or_absent (map_of fs ''impact'') \<and> str_or_absent (map_of fs ''confidence''))"
| "labelled _ = False"

text \<open>
  The detector records of a report: the list under \<^verbatim>\<open>results.detectors\<close>; none when
  the file could not be parsed or the report has no such list.
\<close>

definition report_detectors :: "json option \<Rightarrow> json list" where
  "report_detectors loaded =
     (case loaded of
        Some (JObj report) \<Rightarrow>
          (case map_of report ''results'' of
             Some (JObj r) \<Rightarrow> (case map_of r ''detectors'' of Some (JArr ds) \<Rightarrow> ds | _ \<Rightarrow> [])
           | _ \<Rightarrow> [])
      | _ \<Rightarrow> [])"

text \<open>
  A detector record that can be listed in the Markdown summary: it has a check name and
  a description, and both can be encoded when written.
\<close>

fun shown_present :: "json option \<Rightarrow> bool" where
  "shown_present None = False"
| "shown_present (Some v) = piece_encodable (Shown v)"

fun named :: "json \<Rightarrow> bool" where
  "named (JObj fs) =
     (shown_present (map_of fs ''check'') \<and> shown_present (map_of fs ''description''))"
| "named _ = False"

text \<open>
  The reports the static-analysis processor is specified for: a file that cannot be
  parsed, an object without \<^verbatim>\<open>results\<close>, or an object whose
  \<^verbatim>\<open>results.detectors\<close> is a list of detector records that can be listed.
\<close>

definition report_in_contract :: "json option \<Rightarrow> bool" where
  "report_in_contract loaded =
     (case loaded of
        None \<Rightarrow> True
      | Some (JObj report) \<Rightarrow>
          (case map_of report ''results'' of
             None \<Rightarrow> True
           | Some (JObj r) \<Rightarrow>
               (case map_of r ''detectors'' of
                  Some (JArr ds) \<Rightarrow> list_all labelled ds \<and> list_all named ds
                | _ \<Rightarrow> False)
           | Some _ \<Rightarrow> False)
      | Some _ \<Rightarrow> False)"

text \<open>
  The group the specification gives an issue of the symbolic-execution processor: its
  severity label when that is High, Medium or Low, and Low otherwise.
\<close>

definition spec_group :: "json \<Rightarrow> string" where
  "spec_group issue =
     (case issue of
        JObj fs \<Rightarrow>
          (case map_of fs ''severity'' of
             Some (JStr s) \<Rightarrow> if s \<in> set [''High'', ''Medium'', ''Low''] then s else ''Low''
           | _ \<Rightarrow> ''Low'')
      | _ \<Rightarrow> ''Low'')"

definition groups_of :: "json list \<Rightarrow> groups" where
  "groups_of found =
     [(''High'', filter (\<lambda>i. spec_group i = ''High'') found),
      (''Medium'', filter (\<lambda>i. spec_group i = ''Medium'') found),
      (''Low'', filter (\<lambda>i. spec_group i = ''Low'') found)]"

text \<open>
  An issue record: a dict whose severity, where present, can be hashed (is no list
  and no dict).
\<close>

fun hashable :: "json option \<Rightarrow> bool" where
  "hashable (Some (JArr xs)) = False"
| "hashable (Some (JObj d)) = False"
| "hashable _ = True"

fun groupable :: "json \<Rightarrow> bool" where
  "groupable (JObj fs) = hashable (map_of fs ''severity'')"
| "groupable _ = False"




section \<open>Classification by the static-analysis processor\<close>

lemma spec_tier_cases:
  "spec_tier (i, c) =
     (if i = ''high'' \<and> c = ''high'' then Critical
      else if (i = ''high'' \<and> c = ''medium'') \<or> (i = ''medium'' \<and> c = ''high'') then High
      else if (i = ''medium'' \<and> c = ''medium'') \<or> (i = ''high'' \<and> c = ''low'') then Medium
      else if i = ''low'' \<or> c = ''low'' then Low
      else Informational)"
  by (simp add: spec_tier_def tier_table_def)

lemma critical_tier_iff: "detector_tier d = Critical \<longleftrightarrow> is_critical d"
  by (simp add: detector_tier_def is_critical_def spec_tier_cases)

lemma categorize_detector_labelled:
  assumes "labelled d"
  shows "categorize_detector cats d = Inr (cat_append cats (tiers_of [d]))"
proof -
  obtain fs where d: "d = JObj fs"
    using assms by (cases d) auto
  show ?thesis
    using assms unfolding d
    apply (simp add: categorize_detector_def bind_err_def)
    apply (auto simp: cat_append_def tiers_of_def detector_tier_def spec_tier_cases
        label_of_def str_lower_def
        split: option.splits json.splits elim!: str_or_absent.elims)
    done
qed

lemma cat_append_assoc: "cat_append (cat_append a b) c = cat_append a (cat_append b c)"
  by (simp add: cat_append_def)

lemma tiers_of_Cons: "tiers_of (d # ds) = cat_append (tiers_of [d]) (tiers_of ds)"
  by (simp add: cat_append_def tiers_of_def)

lemma cat_append_empty: "cat_append empty_categories c = c"
  by (simp add: cat_append_def empty_categories_def)

lemma for_each_categorize:
  "list_all labelled ds \<Longrightarrow>
   for_each categorize_detector cats ds = Inr (cat_append cats (tiers_of ds))"
proof (induction ds arbitrary: cats)
  case Nil
  show ?case by (simp add: cat_append_def tiers_of_def)
next
  case (Cons d ds)
  from Cons.prems have d: "labelled d" and ds: "list_all labelled ds"
    by simp_all
  show ?case
    by (simp add: categorize_detector_labelled [OF d] bind_err_def Cons.IH [OF ds]
        cat_append_assoc tiers_of_Cons [of d ds])
qed

lemma categorize_findings_report:
  assumes "map_of report ''results'' = Some (JObj r)"
    and "map_of r ''detectors'' = Some (JArr ds)"
    and "list_all labelled ds"
  shows "categorize_findings (JObj report) = Inr (tiers_of ds)"
  using assms
  by (simp add: categorize_findings_def bind_err_def for_each_categorize cat_append_empty)

text \<open>
  Claim C1. For a report whose \<^verbatim>\<open>results.detectors\<close> is a list of detector
  records, \<^verbatim>\<open>categorize_findings\<close> returns the five tiers, each holding, in report
  order, exactly the detectors that the rule table sends to it when applied to the
  lower-cased impact and confidence: every detector is in the one tier the
  first matching row names, and a detector is in the critical tier if and only if its
  lower-cased impact and confidence are both \<^verbatim>\<open>high\<close>.
\<close>

theorem categorize_findings_tiers:
  assumes "map_of report ''results'' = Some (JObj r)"
    and "map_of r ''detectors'' = Some (JArr ds)"
    and "list_all labelled ds"
  shows "\<exists>c. categorize_findings (JObj report) = Inr c \<and>
           critical c = filter (\<lambda>d. detector_tier d = Critical) ds \<and>
           high c = filter (\<lambda>d. detector_tier d = High) ds \<and>
           medium c = filter (\<lambda>d. detector_tier d = Medium) ds \<and>
           low c = filter (\<lambda>d. detector_tier d = Low) ds \<and>
           informational c = filter (\<lambda>d. detector_tier d = Informational) ds \<and>
           (\<forall>d. d \<in> set (critical c) \<longleftrightarrow>
                d \<in> set ds \<and> label_of d ''impact'' = ''high'' \<and>
                label_of d ''confidence'' = ''high'')"
  using categorize_findings_report [OF assms]
  by (auto simp: tiers_of_def critical_tier_iff is_critical_def)


theorem categorize_findings_tiers_witness:
  "map_of [(''results'',
            JObj [(''detectors'',
              JArr [JObj [(''impact'', JStr ''High''), (''confidence'', JStr ''HIGH'')],
                    JObj [(''impact'', JStr ''medium''), (''confidence'', JStr ''High'')],
                    JObj [(''confidence'', JStr ''Low'')]])])]
     ''results'' =
   Some (JObj [(''detectors'',
              JArr [JObj [(''impact'', JStr ''High''), (''confidence'', JStr ''HIGH'')],
                    JObj [(''impact'', JStr ''medium''), (''confidence'', JStr ''High'')],
                    JObj [(''confidence'', JStr ''Low'')]])]) \<and>
   list_all labelled
     [JObj [(''impact'', JStr ''High''), (''confidence'', JStr ''HIGH'')],
      JObj [(''impact'', JStr ''medium''), (''confidence'', JStr ''High'')],
      JObj [(''confidence'', JStr ''Low'')]] \<and>
   (\<exists>c. categorize_findings
          (JObj [(''results'',
            JObj [(''detectors'',
              JArr [JObj [(''impact'', JStr ''High''), (''confidence'', JStr ''HIGH'')],
                    JObj [(''impact'', JStr ''medium''), (''confidence'', JStr ''High'')],
                    JObj [(''confidence'', JStr ''Low'')]])])]) = Inr c \<and>
        critical c = [JObj [(''impact'', JStr ''High''), (''confidence'', JStr ''HIGH'')]] \<and>
        high c = [JObj [(''impact'', JStr ''medium''), (''confidence'', JStr ''High'')]] \<and>
        medium c = [] \<and>
        low c = [JObj [(''confidence'', JStr ''Low'')]] \<and>
        informational c = [])"
proof -
  let ?ds = "[JObj [(''impact'', JStr ''High''), (''confidence'', JStr ''HIGH'')],
      JObj [(''impact'', JStr ''medium''), (''confidence'', JStr ''High'')],
      JObj [(''confidence'', JStr ''Low'')]]"
  let ?r = "[(''detectors'', JArr ?ds)]"
  let ?report = "[(''results'', JObj ?r)]"
  have h1: "map_of ?report ''results'' = Some (JObj ?r)"
    by simp
  have h2: "map_of ?r ''detectors'' = Some (JArr ?ds)"
    by simp
  have l: "list_all labelled ?ds"
    by simp
  have t: "detector_tier (JObj [(''impact'', JStr ''High''), (''confidence'', JStr ''HIGH'')]) = Critical"
    "detector_tier (JObj [(''impact'', JStr ''medium''), (''confidence'', JStr ''High'')]) = High"
    "detector_tier (JObj [(''confidence'', JStr ''Low'')]) = Low"
    by (simp_all add: detector_tier_def spec_tier_cases label_of_def str_lower_def lower_char_def)
  from categorize_findings_tiers [OF h1 h2 l] obtain c where
    "categorize_findings (JObj ?report) = Inr c"
    "critical c = filter (\<lambda>d. detector_tier d = Critical) ?ds"
    "high c = filter (\<lambda>d. detector_tier d = High) ?ds"
    "medium c = filter (\<lambda>d. detector_tier d = Medium) ?ds"
    "low c = filter (\<lambda>d. detector_tier d = Low) ?ds"
    "informational c = filter (\<lambda>d. detector_tier d = Informational) ?ds"
    by blast
  then have "categorize_findings (JObj ?report) = Inr c \<and>
        critical c = [JObj [(''impact'', JStr ''High''), (''confidence'', JStr ''HIGH'')]] \<and>
        high c = [JObj [(''impact'', JStr ''medium''), (''confidence'', JStr ''High'')]] \<and>
        medium c = [] \<and>
        low c = [JObj [(''confidence'', JStr ''Low'')]] \<and>
        informational c = []"
    by (simp add: t)
  then have "\<exists>c. categorize_findings (JObj ?report) = Inr c \<and>
        critical c = [JObj [(''impact'', JStr ''High''), (''confidence'', JStr ''HIGH'')]] \<and>
        high c = [JObj [(''impact'', JStr ''medium''), (''confidence'', JStr ''High'')]] \<and>
        medium c = [] \<and>
        low c = [JObj [(''confidence'', JStr ''Low'')]] \<and>
        informational c = []" ..
  with h1 l show ?thesis
    by blast
qed

section \<open>What a returning categorization implies\<close>

lemma snd_wr: "list_all piece_encodable ps \<Longrightarrow> snd (wr ps) = None"
  by (simp add: wr_def)

lemma wr_encodable: "list_all piece_encodable ps \<Longrightarrow> wr ps = (ps, None)"
  by (simp add: wr_def)

lemma snd_then_wr: "snd (then_wr a b) = (case snd a of Some e \<Rightarrow> Some e | None \<Rightarrow> snd b)"
  by (simp add: then_wr_def split: option.splits)

lemma snd_then_wr_None: "snd a = None \<Longrightarrow> snd b = None \<Longrightarrow> snd (then_wr a b) = None"
  by (simp add: snd_then_wr)

lemma snd_wr_seq_Nil: "snd (wr_seq []) = None"
  by (simp add: wr_seq_def snd_wr)

lemma snd_wr_seq_Cons:
  "snd w = None \<Longrightarrow> snd (wr_seq ws) = None \<Longrightarrow> snd (wr_seq (w # ws)) = None"
  by (simp add: wr_seq_def snd_then_wr)

lemma snd_if_None:
  "(P \<Longrightarrow> snd a = None) \<Longrightarrow> (\<not> P \<Longrightarrow> snd b = None) \<Longrightarrow>
   snd (if P then a else b) = None"
  by simp

lemma shown_len_encodable: "piece_encodable (shown_len xs)"
  by (simp add: shown_len_def)

lemma shown_int_encodable: "piece_encodable (Shown (JInt n))"
  by simp

text \<open>The fixed text of the Slither summary holds no surrogate.\<close>

lemma slither_text_encodable:
  "piece_encodable (Text (''# '' @ snake @ '' Slither Security Analysis Summary\<newline>\<newline>''))"
  "piece_encodable (Text (check_mark @ '' **No security issues found!**\<newline>\<newline>''))"
  "piece_encodable (Text ''The PayRox Go Beyond contracts passed all Slither security checks.\<newline>'')"
  "piece_encodable (Text (bar_chart @ '' **Total Findings**: ''))"
  "piece_encodable (Text (siren @ '' **Critical Issues**: ''))"
  "piece_encodable (Text (warning_sign @ '' **High Severity**: ''))"
  "piece_encodable (Text (orange_diamond @ '' **Medium Severity**: ''))"
  "piece_encodable (Text (blue_diamond @ '' **Low Severity**: ''))"
  "piece_encodable (Text '' low-severity findings - see full report for details)*\<newline>\<newline>'')"
  "piece_encodable (Text (''## '' @ wrench @ '' Recommendations\<newline>\<newline>''))"
  "piece_encodable (Text ''1. **Immediate Action Required**: Address all critical issues before deployment\<newline>'')"
  "piece_encodable (Text ''2. **High Priority**: Review and fix high-severity findings\<newline>'')"
  "piece_encodable (Text ''3. **Medium Priority**: Consider fixing medium-severity findings\<newline>'')"
  "piece_encodable (Text (''\<newline>'' @ memo @ '' *Full detailed report available in security artifacts*\<newline>''))"
  "piece_encodable (Text ''\<newline>'')"
  "piece_encodable (Text ''\<newline>\<newline>'')"
  "piece_encodable (Text ''*(Note: '')"
  by (simp_all add: snake_def check_mark_def bar_chart_def siren_def warning_sign_def
      orange_diamond_def blue_diamond_def wrench_def memo_def)

lemma finding_line_named:
  assumes "named x"
  shows "\<exists>ps. finding_line x = Inr ps \<and> list_all piece_encodable ps"
proof -
  from assms obtain fs where x: "x = JObj fs"
    by (cases x) auto
  from assms x obtain c d where "map_of fs ''check'' = Some c" "piece_encodable (Shown c)"
    "map_of fs ''description'' = Some d" "piece_encodable (Shown d)"
    by (cases "map_of fs ''check''"; cases "map_of fs ''description''") auto
  then show ?thesis
    by (simp add: x finding_line_def bind_err_def)
qed

lemma write_each_named: "list_all named xs \<Longrightarrow> snd (write_each finding_line xs) = None"
proof (induction xs)
  case Nil
  show ?case by (simp add: snd_wr)
next
  case (Cons x xs)
  from Cons.prems finding_line_named [of x] obtain ps where
    "finding_line x = Inr ps" "list_all piece_encodable ps"
    by auto
  with Cons show ?case
    by (simp add: snd_then_wr snd_wr)
qed

lemma listed_section_named:
  assumes "list_all named xs" and "piece_encodable (Text title)"
  shows "snd (listed_section title xs) = None"
  unfolding listed_section_def
  by (intro snd_if_None snd_wr_seq_Cons snd_wr_seq_Nil snd_wr write_each_named assms(1))
    (simp_all only: list.pred_inject assms(2) shown_len_encodable slither_text_encodable
      simp_thms)

lemma generate_summary_markdown_named:
  assumes "list_all named (critical c)" "list_all named (high c)" "list_all named (medium c)"
  shows "snd (generate_summary_markdown c) = None"
  unfolding generate_summary_markdown_def
  by (intro snd_then_wr_None snd_if_None snd_wr_seq_Cons snd_wr_seq_Nil snd_wr
      listed_section_named assms)
    (simp_all only: list.pred_inject shown_len_encodable slither_text_encodable
      shown_int_encodable simp_thms)

lemma generate_summary_markdown_empty:
  "generate_summary_markdown empty_categories =
     ([Text (''# '' @ snake @ '' Slither Security Analysis Summary\<newline>\<newline>''),
       Text (check_mark @ '' **No security issues found!**\<newline>\<newline>''),
       Text ''The PayRox Go Beyond contracts passed all Slither security checks.\<newline>''],
      None)"
  by (simp add: generate_summary_markdown_def empty_categories_def total_findings_def
      then_wr_def wr_seq_def wr_def snake_def check_mark_def)

lemma categorize_detector_returns: "categorize_detector cats d = Inr c \<Longrightarrow> labelled d"
  apply (cases d; simp add: categorize_detector_def bind_err_def)
  subgoal for fs
    apply (cases "map_of fs ''impact''"; cases "map_of fs ''confidence''"; simp)
    subgoal for v by (cases v; simp)
    subgoal for v by (cases v; simp)
    subgoal for v w by (cases v; cases w; simp)
    done
  done

lemma for_each_returns:
  "for_each categorize_detector cats xs = Inr c \<Longrightarrow> list_all labelled xs"
proof (induction xs arbitrary: cats)
  case Nil
  show ?case by simp
next
  case (Cons x xs)
  then show ?case
    by (auto simp: bind_err_def split: sum.splits dest: categorize_detector_returns)
qed

lemma for_each_returns_tiers:
  assumes "for_each categorize_detector empty_categories xs = Inr c"
  shows "c = tiers_of xs"
  using assms for_each_categorize [OF for_each_returns [OF assms], of empty_categories]
  by (simp add: cat_append_empty)

lemma not_labelled_JStr: "list_all labelled (map (\<lambda>x. JStr (f x)) xs) \<longleftrightarrow> xs = []"
  by (cases xs) simp_all

lemma tiers_of_Nil: "tiers_of [] = empty_categories"
  by (simp add: tiers_of_def empty_categories_def)

lemma categorize_findings_returns:
  assumes "categorize_findings v = Inr c"
  shows "c = tiers_of (report_detectors (Some v))"
proof (cases v)
  case (JObj report)
  show ?thesis
  proof (cases "map_of report ''results''")
    case None
    with assms JObj show ?thesis
      by (simp add: categorize_findings_def bind_err_def report_detectors_def tiers_of_Nil)
  next
    case (Some rv)
    show ?thesis
    proof (cases rv)
      case r: (JObj r)
      show ?thesis
      proof (cases "map_of r ''detectors''")
        case None
        with assms JObj Some r show ?thesis
          by (simp add: categorize_findings_def bind_err_def)
      next
        case ds: (Some dv)
        from assms JObj Some r ds
        have it: "bind_err (py_iter dv) (for_each categorize_detector empty_categories) = Inr c"
          by (simp add: categorize_findings_def bind_err_def)
        show ?thesis
        proof (cases dv)
          case (JArr xs)
          with it have "for_each categorize_detector empty_categories xs = Inr c"
            by (simp add: bind_err_def)
          from for_each_returns_tiers [OF this] JObj Some r ds JArr show ?thesis
            by (simp add: report_detectors_def)
        next
          case d: (JObj d)
          with it have e: "for_each categorize_detector empty_categories (map (\<lambda>kv. JStr (fst kv)) d) = Inr c"
            by (simp add: bind_err_def)
          from for_each_returns [OF e] have "d = []"
            by (simp add: not_labelled_JStr)
          with e JObj Some r ds d show ?thesis
            by (simp add: report_detectors_def tiers_of_Nil)
        next
          case s: (JStr s)
          with it have e: "for_each categorize_detector empty_categories (map (\<lambda>c. JStr [c]) s) = Inr c"
            by (simp add: bind_err_def)
          from for_each_returns [OF e] have "s = []"
            by (simp add: not_labelled_JStr)
          with e JObj Some r ds s show ?thesis
            by (simp add: report_detectors_def tiers_of_Nil)
        qed (use it in \<open>simp_all add: bind_err_def\<close>)
      qed
    qed (use assms JObj Some in \<open>simp_all add: categorize_findings_def bind_err_def\<close>)
  qed
next
  case (JArr xs)
  with assms show ?thesis
    by (simp add: categorize_findings_def bind_err_def report_detectors_def tiers_of_Nil
        split: if_splits)
next
  case (JStr s)
  with assms show ?thesis
    by (simp add: categorize_findings_def bind_err_def report_detectors_def tiers_of_Nil
        split: if_splits)
qed (use assms in \<open>simp_all add: categorize_findings_def bind_err_def\<close>)


section \<open>Reports within the contract\<close>

lemma report_detectors_load:
  "report_detectors (Some (load_slither_report loaded)) = report_detectors loaded"
  by (simp add: load_slither_report_def report_detectors_def split: option.splits)

lemma report_in_contract_cases:
  assumes "report_in_contract loaded"
  obtains "loaded = None"
  | report where "loaded = Some (JObj report)" "map_of report ''results'' = None"
  | report r ds where "loaded = Some (JObj report)" "map_of report ''results'' = Some (JObj r)"
      "map_of r ''detectors'' = Some (JArr ds)" "list_all labelled ds" "list_all named ds"
proof (cases loaded)
  case None
  then show ?thesis by (rule that(1))
next
  case (Some v)
  show ?thesis
  proof (cases v)
    case (JObj report)
    show ?thesis
    proof (cases "map_of report ''results''")
      case None
      with Some JObj show ?thesis by (intro that(2)) simp_all
    next
      case rv: (Some rv)
      show ?thesis
      proof (cases rv)
        case r: (JObj r)
        show ?thesis
        proof (cases "map_of r ''detectors''")
          case None
          with assms Some JObj rv r show ?thesis
            by (simp add: report_in_contract_def)
        next
          case dv: (Some dv)
          show ?thesis
          proof (cases dv)
            case (JArr ds)
            with assms Some JObj rv r dv show ?thesis
              by (intro that(3) [of report r ds]) (simp_all add: report_in_contract_def)
          qed (use assms Some JObj rv r dv in \<open>simp_all add: report_in_contract_def\<close>)
        qed
      qed (use assms Some JObj rv in \<open>simp_all add: report_in_contract_def\<close>)
    qed
  qed (use assms Some in \<open>simp_all add: report_in_contract_def\<close>)
qed

lemma categorize_findings_in_contract:
  assumes "report_in_contract loaded"
  shows "categorize_findings (load_slither_report loaded) =
           Inr (tiers_of (report_detectors loaded)) \<and>
         list_all named (report_detectors loaded)"
  using assms
proof (cases rule: report_in_contract_cases)
  case 1
  then show ?thesis
    by (simp add: load_slither_report_def report_detectors_def categorize_findings_def
        bind_err_def tiers_of_Nil)
next
  case (2 report)
  then show ?thesis
    by (simp add: load_slither_report_def report_detectors_def categorize_findings_def
        bind_err_def tiers_of_Nil)
next
  case (3 report r ds)
  then show ?thesis
    by (simp add: load_slither_report_def report_detectors_def categorize_findings_report)
qed

lemma list_all_filter: "list_all P xs \<Longrightarrow> list_all P (filter Q xs)"
  by (induction xs) simp_all

lemma slither_main_in_contract:
  assumes "path_exists fs report_path" and "report_in_contract (json_at fs report_path)"
  shows "files (process_slither_main fs [prog, report_path]) =
           [(os_path_join (os_path_dirname report_path) ''slither-summary.md'',
             Markdown (fst (generate_summary_markdown
               (tiers_of (report_detectors (json_at fs report_path)))))),
            (os_path_join (os_path_dirname report_path) ''critical-issues.json'',
             JsonDump (JArr (filter is_critical (report_detectors (json_at fs report_path)))))]"
    and "outcome (process_slither_main fs [prog, report_path]) =
           Exit (if filter is_critical (report_detectors (json_at fs report_path)) = []
                 then 0 else 1)"
proof -
  let ?ds = "report_detectors (json_at fs report_path)"
  have c: "categorize_findings (load_slither_report (json_at fs report_path)) = Inr (tiers_of ?ds)"
    and n: "list_all named ?ds"
    using categorize_findings_in_contract [OF assms(2)] by simp_all
  have "snd (generate_summary_markdown (tiers_of ?ds)) = None"
    by (rule generate_summary_markdown_named) (simp_all add: tiers_of_def list_all_filter n)
  then obtain md where md: "generate_summary_markdown (tiers_of ?ds) = (md, None)"
    by (cases "generate_summary_markdown (tiers_of ?ds)") simp
  have crit: "critical (tiers_of ?ds) = filter is_critical ?ds"
    by (simp add: tiers_of_def critical_tier_iff)
  show "files (process_slither_main fs [prog, report_path]) =
           [(os_path_join (os_path_dirname report_path) ''slither-summary.md'',
             Markdown (fst (generate_summary_markdown (tiers_of ?ds)))),
            (os_path_join (os_path_dirname report_path) ''critical-issues.json'',
             JsonDump (JArr (filter is_critical ?ds)))]"
    using assms(1) by (simp add: process_slither_main_def Let_def c md save_critical_issues_def crit)
  show "outcome (process_slither_main fs [prog, report_path]) =
           Exit (if filter is_critical ?ds = [] then 0 else 1)"
    using assms(1) by (simp add: process_slither_main_def Let_def c md crit)
qed

lemma slither_main_files:
  "files (process_slither_main fs argv) =
     (if length argv \<noteq> 2 then []
      else if \<not> path_exists fs (argv ! 1) then []
      else case categorize_findings (load_slither_report (json_at fs (argv ! 1))) of
             Inl e \<Rightarrow> []
           | Inr c \<Rightarrow>
               (case snd (generate_summary_markdown c) of
                  Some e \<Rightarrow>
                    [(os_path_join (os_path_dirname (argv ! 1)) ''slither-summary.md'',
                      Markdown (fst (generate_summary_markdown c)))]
                | None \<Rightarrow>
                    [(os_path_join (os_path_dirname (argv ! 1)) ''slither-summary.md'',
                      Markdown (fst (generate_summary_markdown c))),
                     (os_path_join (os_path_dirname (argv ! 1)) ''critical-issues.json'',
                      JsonDump (save_critical_issues c))]))"
  by (simp add: process_slither_main_def Let_def split: sum.splits prod.splits option.splits)

lemma slither_main_json_written:
  assumes "(p, JsonDump v) \<in> set (files (process_slither_main fs argv))"
  shows "p = os_path_join (os_path_dirname (argv ! 1)) ''critical-issues.json'' \<and>
         v = JArr (filter is_critical (report_detectors (json_at fs (argv ! 1))))"
proof -
  let ?loaded = "json_at fs (argv ! 1)"
  from assms obtain c where c: "categorize_findings (load_slither_report ?loaded) = Inr c"
    and v: "p = os_path_join (os_path_dirname (argv ! 1)) ''critical-issues.json''"
      "v = save_critical_issues c"
    unfolding slither_main_files
    by (cases "categorize_findings (load_slither_report ?loaded)")
      (auto split: if_splits option.splits)
  from categorize_findings_returns [OF c] have "c = tiers_of (report_detectors ?loaded)"
    by (simp add: report_detectors_load)
  with v show ?thesis
    by (simp add: save_critical_issues_def tiers_of_def critical_tier_iff)
qed


section \<open>Reports without a detector list\<close>

text \<open>
  Claim C9. A report that has \<^verbatim>\<open>results\<close>, an object without the key
  \<^verbatim>\<open>detectors\<close>, makes \<^verbatim>\<open>categorize_findings\<close> raise KeyError, which nothing in
  \<^verbatim>\<open>main\<close> catches: the run writes no file and ends with the exception. So whenever
  \<^verbatim>\<open>categorize_findings\<close> returns on a report whose \<^verbatim>\<open>results\<close> is an object, that
  object has the key \<^verbatim>\<open>detectors\<close>.
\<close>

theorem categorize_findings_missing_detectors:
  "(map_of report ''results'' = Some (JObj r) \<and> map_of r ''detectors'' = None \<longrightarrow>
      categorize_findings (JObj report) = Inl KeyError \<and>
      (path_exists fs report_path \<and> json_at fs report_path = Some (JObj report) \<longrightarrow>
         files (process_slither_main fs [prog, report_path]) = [] \<and>
         outcome (process_slither_main fs [prog, report_path]) = Uncaught KeyError)) \<and>
   (map_of report ''results'' = Some (JObj r) \<and>
    categorize_findings (JObj report) = Inr c \<longrightarrow> map_of r ''detectors'' \<noteq> None)"
  by (auto simp: categorize_findings_def bind_err_def process_slither_main_def
      load_slither_report_def Let_def split: option.splits)

theorem categorize_findings_missing_detectors_witness:
  "map_of [(''success'', JBool True), (''error'', JNull), (''results'', JObj [])] ''results'' =
     Some (JObj []) \<and>
   map_of ([] :: (string \<times> json) list) ''detectors'' = None \<and>
   categorize_findings
     (JObj [(''success'', JBool True), (''error'', JNull), (''results'', JObj [])]) =
     Inl KeyError \<and>
   outcome (process_slither_main
     \<lparr>path_exists = (\<lambda>p. True),
      json_at = (\<lambda>p. Some (JObj [(''success'', JBool True), (''error'', JNull),
                                 (''results'', JObj [])])),
      glob_glob = (\<lambda>p. [])\<rparr>
     [''process-slither.py'', ''reports/slither.json'']) = Uncaught KeyError \<and>
   map_of [(''results'', JObj [(''detectors'', JArr [])])] ''results'' =
     Some (JObj [(''detectors'', JArr [])]) \<and>
   categorize_findings (JObj [(''results'', JObj [(''detectors'', JArr [])])]) =
     Inr empty_categories \<and>
   map_of [(''detectors'', JArr [])] ''detectors'' \<noteq> None"
  using categorize_findings_missing_detectors
    [of "[(''success'', JBool True), (''error'', JNull), (''results'', JObj [])]" "[]"
        "\<lparr>path_exists = (\<lambda>p. True),
          json_at = (\<lambda>p. Some (JObj [(''success'', JBool True), (''error'', JNull),
                                     (''results'', JObj [])])),
          glob_glob = (\<lambda>p. [])\<rparr>"
        "''reports/slither.json''" "''process-slither.py''" empty_categories]
    categorize_findings_missing_detectors
    [of "[(''results'', JObj [(''detectors'', JArr [])])]" "[(''detectors'', JArr [])]"
        "\<lparr>path_exists = (\<lambda>p. True), json_at = (\<lambda>p. None), glob_glob = (\<lambda>p. [])\<rparr>"
        "''reports/slither.json''" "''process-slither.py''" empty_categories]
  by (simp add: categorize_findings_def bind_err_def)


section \<open>Reports that cannot be parsed or have no results\<close>

text \<open>
  Claim C7. When the report file exists but cannot be opened or parsed, or parses to an
  object without the key \<^verbatim>\<open>results\<close>, the categorization is the empty one (every
  tier empty), the Markdown summary written is the one for no findings, the
  critical-issues file holds the empty array, and the process ends with
  \<^verbatim>\<open>sys.exit(0)\<close>.
\<close>

theorem unparsed_report_is_empty:
  assumes "path_exists fs report_path"
    and "json_at fs report_path = None \<or>
         (\<exists>report. json_at fs report_path = Some (JObj report) \<and>
                   map_of report ''results'' = None)"
  shows "categorize_findings (load_slither_report (json_at fs report_path)) =
           Inr \<lparr>critical = [], high = [], medium = [], low = [], informational = []\<rparr> \<and>
         files (process_slither_main fs [prog, report_path]) =
           [(os_path_join (os_path_dirname report_path) ''slither-summary.md'',
             Markdown
               [Text (''# '' @ snake @ '' Slither Security Analysis Summary\<newline>\<newline>''),
                Text (check_mark @ '' **No security issues found!**\<newline>\<newline>''),
                Text ''The PayRox Go Beyond contracts passed all Slither security checks.\<newline>'']),
            (os_path_join (os_path_dirname report_path) ''critical-issues.json'',
             JsonDump (JArr []))] \<and>
         outcome (process_slither_main fs [prog, report_path]) = Exit 0"
proof -
  from assms(2) have c: "report_in_contract (json_at fs report_path)"
    and d: "report_detectors (json_at fs report_path) = []"
    by (auto simp: report_in_contract_def report_detectors_def)
  from categorize_findings_in_contract [OF c] slither_main_in_contract [OF assms(1) c, of prog]
  show ?thesis
    by (simp add: d tiers_of_Nil generate_summary_markdown_empty)
      (simp add: empty_categories_def)
qed

theorem unparsed_report_is_empty_witness:
  "path_exists \<lparr>path_exists = (\<lambda>p. True), json_at = (\<lambda>p. None), glob_glob = (\<lambda>p. [])\<rparr>
     ''reports/slither.json'' \<and>
   json_at \<lparr>path_exists = (\<lambda>p. True), json_at = (\<lambda>p. None), glob_glob = (\<lambda>p. [])\<rparr>
     ''reports/slither.json'' = None \<and>
   files (process_slither_main
      \<lparr>path_exists = (\<lambda>p. True), json_at = (\<lambda>p. None), glob_glob = (\<lambda>p. [])\<rparr>
      [''process-slither.py'', ''reports/slither.json'']) =
     [(''reports/slither-summary.md'',
       Markdown
         [Text (''# '' @ snake @ '' Slither Security Analysis Summary\<newline>\<newline>''),
          Text (check_mark @ '' **No security issues found!**\<newline>\<newline>''),
          Text ''The PayRox Go Beyond contracts passed all Slither security checks.\<newline>'']),
      (''reports/critical-issues.json'', JsonDump (JArr []))] \<and>
   outcome (process_slither_main
      \<lparr>path_exists = (\<lambda>p. True), json_at = (\<lambda>p. None), glob_glob = (\<lambda>p. [])\<rparr>
      [''process-slither.py'', ''reports/slither.json'']) = Exit 0 \<and>
   outcome (process_slither_main
      \<lparr>path_exists = (\<lambda>p. True),
       json_at = (\<lambda>p. Some (JObj [(''success'', JBool False)])),
       glob_glob = (\<lambda>p. [])\<rparr>
      [''process-slither.py'', ''reports/slither.json'']) = Exit 0"
  using unparsed_report_is_empty
    [of "\<lparr>path_exists = (\<lambda>p. True), json_at = (\<lambda>p. None), glob_glob = (\<lambda>p. [])\<rparr>"
        "''reports/slither.json''" "''process-slither.py''"]
    unparsed_report_is_empty
    [of "\<lparr>path_exists = (\<lambda>p. True),
          json_at = (\<lambda>p. Some (JObj [(''success'', JBool False)])),
          glob_glob = (\<lambda>p. [])\<rparr>"
        "''reports/slither.json''" "''process-slither.py''"]
  by (simp add: os_path_dirname_def os_path_join_def)

section \<open>The critical-issues file\<close>

text \<open>
  Claim C5. Whatever the arguments and the report, a JSON file the static-analysis
  processor writes is \<^verbatim>\<open>critical-issues.json\<close> in the report's directory, and its
  content is the array of exactly the detector records of the report whose lower-cased
  impact and confidence are both \<^verbatim>\<open>high\<close>, the records themselves, in report
  order; so its length is the number of such detectors. The file is written for every
  report within the contract: one that cannot be parsed, one without
  \<^verbatim>\<open>results\<close>, or one whose detectors are records with string labels and with a
  check name and a description that can be encoded when the summary is written.
\<close>

theorem critical_issues_json:
  "(\<forall>p v. (p, JsonDump v) \<in> set (files (process_slither_main fs argv)) \<longrightarrow>
      p = os_path_join (os_path_dirname (argv ! 1)) ''critical-issues.json'' \<and>
      v = JArr (filter is_critical (report_detectors (json_at fs (argv ! 1)))) \<and>
      v = save_critical_issues (tiers_of (report_detectors (json_at fs (argv ! 1))))) \<and>
   (length argv = 2 \<and> path_exists fs (argv ! 1) \<and>
    report_in_contract (json_at fs (argv ! 1)) \<longrightarrow>
      (os_path_join (os_path_dirname (argv ! 1)) ''critical-issues.json'',
       JsonDump (JArr (filter is_critical (report_detectors (json_at fs (argv ! 1))))))
      \<in> set (files (process_slither_main fs argv))) \<and>
   length (filter is_critical (report_detectors (json_at fs (argv ! 1)))) =
     card {i. i < length (report_detectors (json_at fs (argv ! 1))) \<and>
              is_critical (report_detectors (json_at fs (argv ! 1)) ! i)}"
proof (intro conjI allI impI)
  fix p v
  assume w: "(p, JsonDump v) \<in> set (files (process_slither_main fs argv))"
  from slither_main_json_written [OF w]
  show "p = os_path_join (os_path_dirname (argv ! 1)) ''critical-issues.json''"
    and "v = JArr (filter is_critical (report_detectors (json_at fs (argv ! 1))))"
    and "v = save_critical_issues (tiers_of (report_detectors (json_at fs (argv ! 1))))"
    by (simp_all add: save_critical_issues_def tiers_of_def critical_tier_iff)
next
  assume a: "length argv = 2 \<and> path_exists fs (argv ! 1) \<and>
    report_in_contract (json_at fs (argv ! 1))"
  then have "argv = [argv ! 0, argv ! 1]"
    by (cases argv; cases "tl argv") auto
  with a slither_main_in_contract(1) [of fs "argv ! 1" "argv ! 0"]
  show "(os_path_join (os_path_dirname (argv ! 1)) ''critical-issues.json'',
       JsonDump (JArr (filter is_critical (report_detectors (json_at fs (argv ! 1))))))
      \<in> set (files (process_slither_main fs argv))"
    by simp
next
  show "length (filter is_critical (report_detectors (json_at fs (argv ! 1)))) =
     card {i. i < length (report_detectors (json_at fs (argv ! 1))) \<and>
              is_critical (report_detectors (json_at fs (argv ! 1)) ! i)}"
    by (rule length_filter_conv_card)
qed

theorem critical_issues_json_witness:
  "length [''process-slither.py'', ''out/slither.json''] = 2 \<and>
   report_in_contract
     (Some (JObj [(''results'', JObj [(''detectors'',
        JArr [JObj [(''check'', JStr ''reentrancy-eth''), (''impact'', JStr ''High''),
                    (''confidence'', JStr ''High''), (''description'', JStr ''Reentrancy'')],
              JObj [(''check'', JStr ''naming-convention''),
                    (''impact'', JStr ''Informational''), (''confidence'', JStr ''High''),
                    (''description'', JStr ''Naming'')]])])])) \<and>
   (''out/critical-issues.json'',
    JsonDump (JArr [JObj [(''check'', JStr ''reentrancy-eth''), (''impact'', JStr ''High''),
                          (''confidence'', JStr ''High''),
                          (''description'', JStr ''Reentrancy'')]]))
   \<in> set (files (process_slither_main
       \<lparr>path_exists = (\<lambda>p. True),
        json_at = (\<lambda>p. Some (JObj [(''results'', JObj [(''detectors'',
          JArr [JObj [(''check'', JStr ''reentrancy-eth''), (''impact'', JStr ''High''),
                      (''confidence'', JStr ''High''), (''description'', JStr ''Reentrancy'')],
                JObj [(''check'', JStr ''naming-convention''),
                      (''impact'', JStr ''Informational''), (''confidence'', JStr ''High''),
                      (''description'', JStr ''Naming'')]])])])),
        glob_glob = (\<lambda>p. [])\<rparr>
       [''process-slither.py'', ''out/slither.json'']))"
proof -
  let ?d1 = "JObj [(''check'', JStr ''reentrancy-eth''), (''impact'', JStr ''High''),
                    (''confidence'', JStr ''High''), (''description'', JStr ''Reentrancy'')]"
  let ?d2 = "JObj [(''check'', JStr ''naming-convention''),
                    (''impact'', JStr ''Informational''), (''confidence'', JStr ''High''),
                    (''description'', JStr ''Naming'')]"
  let ?report = "JObj [(''results'', JObj [(''detectors'', JArr [?d1, ?d2])])]"
  let ?fs = "\<lparr>path_exists = (\<lambda>p. True), json_at = (\<lambda>p. Some ?report),
              glob_glob = (\<lambda>p. [])\<rparr>"
  let ?argv = "[''process-slither.py'', ''out/slither.json'']"
  have c: "report_in_contract (json_at ?fs (?argv ! 1))"
    by (simp add: report_in_contract_def)
  have d: "report_detectors (json_at ?fs (?argv ! 1)) = [?d1, ?d2]"
    by (simp add: report_detectors_def)
  have k: "is_critical ?d1" "\<not> is_critical ?d2"
    by (simp_all add: is_critical_def label_of_def str_lower_def lower_char_def)
  have p: "os_path_join (os_path_dirname (?argv ! 1)) ''critical-issues.json'' =
             ''out/critical-issues.json''"
    by (simp add: os_path_dirname_def os_path_join_def)
  from critical_issues_json [of ?fs ?argv] c
  have "(os_path_join (os_path_dirname (?argv ! 1)) ''critical-issues.json'',
         JsonDump (JArr (filter is_critical (report_detectors (json_at ?fs (?argv ! 1))))))
        \<in> set (files (process_slither_main ?fs ?argv))"
    by simp
  then have "(''out/critical-issues.json'', JsonDump (JArr [?d1]))
        \<in> set (files (process_slither_main ?fs ?argv))"
    unfolding p d by (simp add: k)
  with c show ?thesis
    by simp
qed

section \<open>The exit status of the static-analysis processor\<close>

text \<open>
  For a report within the contract the process ends with \<^verbatim>\<open>sys.exit(1)\<close> when some
  detector is critical and with \<^verbatim>\<open>sys.exit(0)\<close> otherwise: that is
  \<open>slither_main_in_contract\<close> above.

  Claim C4. The exit status is not decided by the critical tier alone. On a report whose
  \<^verbatim>\<open>results\<close> object has no \<^verbatim>\<open>detectors\<close> key, with one argument and an
  existing file, the run ends with an uncaught KeyError, hence with exit status 1, and
  writes no file, although no detector of the report is critical.
\<close>

theorem slither_exit_without_detectors:
  "outcome (process_slither_main
      \<lparr>path_exists = (\<lambda>p. True),
       json_at = (\<lambda>p. Some (JObj [(''success'', JBool True), (''error'', JNull),
                                  (''results'', JObj [])])),
       glob_glob = (\<lambda>p. [])\<rparr>
      [''process-slither.py'', ''reports/slither.json'']) = Uncaught KeyError \<and>
   exit_status (outcome (process_slither_main
      \<lparr>path_exists = (\<lambda>p. True),
       json_at = (\<lambda>p. Some (JObj [(''success'', JBool True), (''error'', JNull),
                                  (''results'', JObj [])])),
       glob_glob = (\<lambda>p. [])\<rparr>
      [''process-slither.py'', ''reports/slither.json''])) = 1 \<and>
   files (process_slither_main
      \<lparr>path_exists = (\<lambda>p. True),
       json_at = (\<lambda>p. Some (JObj [(''success'', JBool True), (''error'', JNull),
                                  (''results'', JObj [])])),
       glob_glob = (\<lambda>p. [])\<rparr>
      [''process-slither.py'', ''reports/slither.json'']) = [] \<and>
   filter is_critical
     (report_detectors (Some (JObj [(''success'', JBool True), (''error'', JNull),
                                    (''results'', JObj [])]))) = []"
  by (simp add: process_slither_main_def Let_def load_slither_report_def
      categorize_findings_def bind_err_def report_detectors_def)



section \<open>The aggregator's score and status\<close>

lemma score_deductions:
  "score (calculate_security_score sd md) =
     max 0 (100 - 25 * max 0 (critical_issues sd) - 15 * max 0 (high_severity md)
              - 5 * max 0 (medium_severity md))"
  unfolding calculate_security_score_def Let_def
  by (cases "critical_issues sd > 0"; cases "high_severity md > 0";
      cases "medium_severity md > 0"; simp add: max_def)

lemma status_of_score:
  "status (calculate_security_score sd md) =
     (if score (calculate_security_score sd md) \<ge> 95 then ''EXCELLENT''
      else if score (calculate_security_score sd md) \<ge> 85 then ''GOOD''
      else if score (calculate_security_score sd md) \<ge> 70 then ''FAIR''
      else ''NEEDS_ATTENTION'')"
  unfolding calculate_security_score_def Let_def
  by (cases "critical_issues sd > 0"; cases "high_severity md > 0";
      cases "medium_severity md > 0"; simp add: max_def)

text \<open>
  Claim C2. For counts that are not negative the score is
  \<open>max 0 (100 - 25 * critical - 15 * high - 5 * medium)\<close>; raising any of the three
  counts never raises the score; and with all three counts zero the score is 100.
\<close>

theorem security_score_formula:
  assumes "0 \<le> critical_issues sd" and "0 \<le> high_severity md" and "0 \<le> medium_severity md"
    and "critical_issues sd \<le> critical_issues sd'"
    and "high_severity md \<le> high_severity md'"
    and "medium_severity md \<le> medium_severity md'"
  shows "score (calculate_security_score sd md) =
           max 0 (100 - 25 * critical_issues sd - 15 * high_severity md
                    - 5 * medium_severity md) \<and>
         score (calculate_security_score sd' md') \<le> score (calculate_security_score sd md) \<and>
         (critical_issues sd = 0 \<and> high_severity md = 0 \<and> medium_severity md = 0 \<longrightarrow>
            score (calculate_security_score sd md) = 100)"
  unfolding score_deductions using assms by (simp add: max_def)

theorem security_score_formula_witness:
  "(0::int) \<le> critical_issues
      \<lparr>has_summary = True, critical_issues = 0, total_issues = 0, summary_content = []\<rparr> \<and>
   critical_issues
      \<lparr>has_summary = True, critical_issues = 0, total_issues = 0, summary_content = []\<rparr>
     \<le> critical_issues
      \<lparr>has_summary = True, critical_issues = 1, total_issues = 0, summary_content = []\<rparr> \<and>
   score (calculate_security_score
      \<lparr>has_summary = True, critical_issues = 0, total_issues = 0, summary_content = []\<rparr>
      \<lparr>has_results = True, high_severity = 0, medium_severity = 0, low_severity = 4,
       mythril_total_issues = 4, mythril_summary_content = []\<rparr>) = 100 \<and>
   score (calculate_security_score
      \<lparr>has_summary = True, critical_issues = 1, total_issues = 0, summary_content = []\<rparr>
      \<lparr>has_results = True, high_severity = 2, medium_severity = 3, low_severity = 0,
       mythril_total_issues = 5, mythril_summary_content = []\<rparr>)
     \<le> score (calculate_security_score
      \<lparr>has_summary = True, critical_issues = 0, total_issues = 0, summary_content = []\<rparr>
      \<lparr>has_results = True, high_severity = 0, medium_severity = 0, low_severity = 4,
       mythril_total_issues = 4, mythril_summary_content = []\<rparr>)"
  using security_score_formula
    [of "\<lparr>has_summary = True, critical_issues = 0, total_issues = 0, summary_content = []\<rparr>"
        "\<lparr>has_results = True, high_severity = 0, medium_severity = 0, low_severity = 4,
          mythril_total_issues = 4, mythril_summary_content = []\<rparr>"
        "\<lparr>has_summary = True, critical_issues = 1, total_issues = 0, summary_content = []\<rparr>"
        "\<lparr>has_results = True, high_severity = 2, medium_severity = 3, low_severity = 0,
          mythril_total_issues = 5, mythril_summary_content = []\<rparr>"]
  by simp

text \<open>
  Claim C3. The status is decided by the score returned: EXCELLENT from 95 up, GOOD from
  85 to 94, FAIR from 70 to 84, NEEDS_ATTENTION below 70; the score lies between 0 and
  100, so every score has exactly one band. One critical static-analysis issue alone
  gives score 75 and FAIR; two high-severity and three medium-severity
  symbolic-execution issues give 55 and NEEDS_ATTENTION; the scores 95, 85 and 70 are in
  the upper band each.
\<close>

theorem security_status_bands:
  "status (calculate_security_score sd md) =
     (if score (calculate_security_score sd md) \<ge> 95 then ''EXCELLENT''
      else if score (calculate_security_score sd md) \<ge> 85 then ''GOOD''
      else if score (calculate_security_score sd md) \<ge> 70 then ''FAIR''
      else ''NEEDS_ATTENTION'') \<and>
   0 \<le> score (calculate_security_score sd md) \<and>
   score (calculate_security_score sd md) \<le> 100 \<and>
   score (calculate_security_score (sd\<lparr>critical_issues := 1\<rparr>)
            (md\<lparr>high_severity := 0, medium_severity := 0\<rparr>)) = 75 \<and>
   status (calculate_security_score (sd\<lparr>critical_issues := 1\<rparr>)
            (md\<lparr>high_severity := 0, medium_severity := 0\<rparr>)) = ''FAIR'' \<and>
   score (calculate_security_score (sd\<lparr>critical_issues := 0\<rparr>)
            (md\<lparr>high_severity := 2, medium_severity := 3\<rparr>)) = 55 \<and>
   status (calculate_security_score (sd\<lparr>critical_issues := 0\<rparr>)
            (md\<lparr>high_severity := 2, medium_severity := 3\<rparr>)) = ''NEEDS_ATTENTION'' \<and>
   score (calculate_security_score (sd\<lparr>critical_issues := 0\<rparr>)
            (md\<lparr>high_severity := 0, medium_severity := 1\<rparr>)) = 95 \<and>
   status (calculate_security_score (sd\<lparr>critical_issues := 0\<rparr>)
            (md\<lparr>high_severity := 0, medium_severity := 1\<rparr>)) = ''EXCELLENT'' \<and>
   score (calculate_security_score (sd\<lparr>critical_issues := 0\<rparr>)
            (md\<lparr>high_severity := 1, medium_severity := 0\<rparr>)) = 85 \<and>
   status (calculate_security_score (sd\<lparr>critical_issues := 0\<rparr>)
            (md\<lparr>high_severity := 1, medium_severity := 0\<rparr>)) = ''GOOD'' \<and>
   score (calculate_security_score (sd\<lparr>critical_issues := 0\<rparr>)
            (md\<lparr>high_severity := 2, medium_severity := 0\<rparr>)) = 70 \<and>
   status (calculate_security_score (sd\<lparr>critical_issues := 0\<rparr>)
            (md\<lparr>high_severity := 2, medium_severity := 0\<rparr>)) = ''FAIR''"
proof -
  have ex: "score (calculate_security_score (sd\<lparr>critical_issues := 1\<rparr>)
            (md\<lparr>high_severity := 0, medium_severity := 0\<rparr>)) = 75"
    "score (calculate_security_score (sd\<lparr>critical_issues := 0\<rparr>)
            (md\<lparr>high_severity := 2, medium_severity := 3\<rparr>)) = 55"
    "score (calculate_security_score (sd\<lparr>critical_issues := 0\<rparr>)
            (md\<lparr>high_severity := 0, medium_severity := 1\<rparr>)) = 95"
    "score (calculate_security_score (sd\<lparr>critical_issues := 0\<rparr>)
            (md\<lparr>high_severity := 1, medium_severity := 0\<rparr>)) = 85"
    "score (calculate_security_score (sd\<lparr>critical_issues := 0\<rparr>)
            (md\<lparr>high_severity := 2, medium_severity := 0\<rparr>)) = 70"
    by (simp_all add: score_deductions)
  have range: "0 \<le> score (calculate_security_score sd md)"
    "score (calculate_security_score sd md) \<le> 100"
    unfolding score_deductions by (simp_all add: max_def)
  show ?thesis
    using range status_of_score [of sd md] by (simp add: ex status_of_score)
qed

section \<open>Grouping by the symbolic-execution processor\<close>

lemma spec_group_cases:
  "spec_group i = ''High'' \<or> spec_group i = ''Medium'' \<or> spec_group i = ''Low''"
  by (auto simp: spec_group_def split: json.splits option.splits)

lemma categorize_issue_groupable:
  assumes "groupable i"
  shows "categorize_issue [(''High'', a), (''Medium'', b), (''Low'', c)] i =
           Inr (group_append [(''High'', a), (''Medium'', b), (''Low'', c)] (spec_group i) i)"
proof -
  obtain fs where i: "i = JObj fs"
    using assms by (cases i) auto
  show ?thesis
  proof (cases "map_of fs ''severity''")
    case None
    then show ?thesis
      by (simp add: i categorize_issue_def bind_err_def spec_group_def)
  next
    case (Some v)
    with assms i show ?thesis
      by (cases v) (simp_all add: categorize_issue_def bind_err_def spec_group_def)
  qed
qed

lemma group_append_triple:
  "group_append [(''High'', a), (''Medium'', b), (''Low'', c)] k i =
     [(''High'', if k = ''High'' then a @ [i] else a),
      (''Medium'', if k = ''Medium'' then b @ [i] else b),
      (''Low'', if k = ''Low'' then c @ [i] else c)]"
  by (simp add: group_append_def)

lemma for_each_categorize_issue:
  "list_all groupable xs \<Longrightarrow>
   for_each categorize_issue [(''High'', a), (''Medium'', b), (''Low'', c)] xs =
     Inr [(''High'', a @ filter (\<lambda>i. spec_group i = ''High'') xs),
          (''Medium'', b @ filter (\<lambda>i. spec_group i = ''Medium'') xs),
          (''Low'', c @ filter (\<lambda>i. spec_group i = ''Low'') xs)]"
proof (induction xs arbitrary: a b c)
  case Nil
  show ?case by simp
next
  case (Cons x xs)
  from Cons.prems have x: "groupable x" and xs: "list_all groupable xs"
    by simp_all
  from spec_group_cases [of x] show ?case
    by (elim disjE) (simp_all add: categorize_issue_groupable [OF x] group_append_triple
        bind_err_def Cons.IH [OF xs])
qed

lemma categorize_mythril_groupable:
  "list_all groupable xs \<Longrightarrow> categorize_mythril_findings xs = Inr (groups_of xs)"
  by (simp add: categorize_mythril_findings_def initial_groups_def groups_of_def
      for_each_categorize_issue)

lemma groups_partition:
  "mset (filter (\<lambda>i. spec_group i = ''High'') xs) +
   mset (filter (\<lambda>i. spec_group i = ''Medium'') xs) +
   mset (filter (\<lambda>i. spec_group i = ''Low'') xs) = mset xs"
proof (induction xs)
  case Nil
  show ?case by simp
next
  case (Cons x xs)
  from spec_group_cases [of x] Cons show ?case
    by (elim disjE) simp_all
qed

lemma groups_lengths:
  "length (filter (\<lambda>i. spec_group i = ''High'') xs) +
   length (filter (\<lambda>i. spec_group i = ''Medium'') xs) +
   length (filter (\<lambda>i. spec_group i = ''Low'') xs) = length xs"
proof (induction xs)
  case Nil
  show ?case by simp
next
  case (Cons x xs)
  from spec_group_cases [of x] Cons show ?case
    by (elim disjE) simp_all
qed

lemma summary_record_dict:
  "summary_record severity (JObj fs) =
     Inr (JObj [(''severity'', JStr severity),
                (''title'', case map_of fs ''title'' of None \<Rightarrow> JStr ''Unknown Issue'' | Some v \<Rightarrow> v),
                (''description'', case map_of fs ''description'' of None \<Rightarrow> JStr [] | Some v \<Rightarrow> v),
                (''contract'', case map_of fs ''filename'' of None \<Rightarrow> JStr ''Unknown'' | Some v \<Rightarrow> v),
                (''function'', case map_of fs ''function'' of None \<Rightarrow> JStr ''Unknown'' | Some v \<Rightarrow> v),
                (''swc_id'', case map_of fs ''swc-id'' of None \<Rightarrow> JStr [] | Some v \<Rightarrow> v)])"
  by (simp add: summary_record_def bind_err_def)

lemma map_err_summary_record:
  "list_all groupable ys \<Longrightarrow>
   \<exists>rs. map_err (summary_record severity) ys = Inr rs \<and> length rs = length ys \<and>
        list_all (\<lambda>r. py_subscript r ''severity'' = Inr (JStr severity)) rs"
proof (induction ys)
  case Nil
  show ?case by simp
next
  case (Cons y ys)
  from Cons.prems obtain fs where y: "y = JObj fs"
    by (cases y) auto
  from Cons obtain rs where "map_err (summary_record severity) ys = Inr rs"
    "length rs = length ys" "list_all (\<lambda>r. py_subscript r ''severity'' = Inr (JStr severity)) rs"
    by auto
  then show ?case
    by (simp add: y summary_record_dict bind_err_def)
qed


lemma all_issues_groups:
  assumes "list_all groupable xs"
  shows "\<exists>rs. all_issues (groups_of xs) = Inr rs \<and> length rs = length xs \<and>
           list_all (\<lambda>r. py_subscript r ''severity'' = Inr (JStr ''High'') \<or>
                         py_subscript r ''severity'' = Inr (JStr ''Medium'') \<or>
                         py_subscript r ''severity'' = Inr (JStr ''Low'')) rs"
proof -
  let ?h = "filter (\<lambda>i. spec_group i = ''High'') xs"
  let ?m = "filter (\<lambda>i. spec_group i = ''Medium'') xs"
  let ?l = "filter (\<lambda>i. spec_group i = ''Low'') xs"
  from assms have "list_all groupable ?h" "list_all groupable ?m" "list_all groupable ?l"
    by (simp_all add: list_all_filter)
  then obtain rh rm rl where
    h: "map_err (summary_record ''High'') ?h = Inr rh" "length rh = length ?h"
      "list_all (\<lambda>r. py_subscript r ''severity'' = Inr (JStr ''High'')) rh" and
    m: "map_err (summary_record ''Medium'') ?m = Inr rm" "length rm = length ?m"
      "list_all (\<lambda>r. py_subscript r ''severity'' = Inr (JStr ''Medium'')) rm" and
    l: "map_err (summary_record ''Low'') ?l = Inr rl" "length rl = length ?l"
      "list_all (\<lambda>r. py_subscript r ''severity'' = Inr (JStr ''Low'')) rl"
    using map_err_summary_record [of ?h "''High''"] map_err_summary_record [of ?m "''Medium''"]
      map_err_summary_record [of ?l "''Low''"]
    by blast
  have "all_issues (groups_of xs) = Inr (rh @ rm @ rl)"
    by (simp add: all_issues_def groups_of_def bind_err_def h(1) m(1) l(1))
  moreover have "length (rh @ rm @ rl) = length xs"
    using groups_lengths [of xs] by (simp add: h(2) m(2) l(2))
  moreover have "list_all (\<lambda>r. py_subscript r ''severity'' = Inr (JStr ''High'') \<or>
                         py_subscript r ''severity'' = Inr (JStr ''Medium'') \<or>
                         py_subscript r ''severity'' = Inr (JStr ''Low'')) (rh @ rm @ rl)"
    using h(3) m(3) l(3) by (auto simp: list_all_iff)
  ultimately show ?thesis
    by blast
qed












lemma group_get_groups_of:
  "group_get (groups_of xs) ''High'' = filter (\<lambda>i. spec_group i = ''High'') xs"
  "group_get (groups_of xs) ''Medium'' = filter (\<lambda>i. spec_group i = ''Medium'') xs"
  "group_get (groups_of xs) ''Low'' = filter (\<lambda>i. spec_group i = ''Low'') xs"
  by (simp_all add: group_get_def groups_of_def)






text \<open>
  Claim C6. For a list of issue records, \<^verbatim>\<open>categorize_mythril_findings\<close> returns the
  three groups High, Medium and Low, each holding, in input order, the issues the
  specification's rule sends to it: an issue whose severity is the string High (or
  Medium) is in the group of that name, and every other issue, its severity absent,
  \<^verbatim>\<open>Critical\<close> or any other value, is in the Low group.
\<close>

theorem mythril_severity_groups:
  assumes "list_all groupable xs"
  shows "\<exists>g. categorize_mythril_findings xs = Inr g \<and>
           g = [(''High'', filter (\<lambda>i. spec_group i = ''High'') xs),
                (''Medium'', filter (\<lambda>i. spec_group i = ''Medium'') xs),
                (''Low'', filter (\<lambda>i. spec_group i = ''Low'') xs)] \<and>
           (\<forall>fs. JObj fs \<in> set (group_get g ''High'') \<longleftrightarrow>
                 JObj fs \<in> set xs \<and> map_of fs ''severity'' = Some (JStr ''High'')) \<and>
           (\<forall>fs. JObj fs \<in> set (group_get g ''Medium'') \<longleftrightarrow>
                 JObj fs \<in> set xs \<and> map_of fs ''severity'' = Some (JStr ''Medium'')) \<and>
           (\<forall>fs. JObj fs \<in> set (group_get g ''Low'') \<longleftrightarrow>
                 JObj fs \<in> set xs \<and> map_of fs ''severity'' \<noteq> Some (JStr ''High'') \<and>
                 map_of fs ''severity'' \<noteq> Some (JStr ''Medium''))"
proof -
  have h: "spec_group (JObj fs) = ''High'' \<longleftrightarrow> map_of fs ''severity'' = Some (JStr ''High'')"
    for fs
    by (auto simp: spec_group_def split: option.splits json.splits)
  have m: "spec_group (JObj fs) = ''Medium'' \<longleftrightarrow> map_of fs ''severity'' = Some (JStr ''Medium'')"
    for fs
    by (auto simp: spec_group_def split: option.splits json.splits)
  have l: "spec_group (JObj fs) = ''Low'' \<longleftrightarrow>
             map_of fs ''severity'' \<noteq> Some (JStr ''High'') \<and>
             map_of fs ''severity'' \<noteq> Some (JStr ''Medium'')"
    for fs
    using spec_group_cases [of "JObj fs"] h [of fs] m [of fs] by auto
  show ?thesis
    using categorize_mythril_groupable [OF assms]
    by (simp add: groups_of_def group_get_def h m l)
qed

theorem mythril_severity_groups_witness:
  "list_all groupable
     [JObj [(''severity'', JStr ''High''), (''title'', JStr ''Integer Overflow'')],
      JObj [(''severity'', JStr ''Critical'')],
      JObj [(''title'', JStr ''Unprotected Selfdestruct'')],
      JObj [(''severity'', JStr ''Medium'')]] \<and>
   categorize_mythril_findings
     [JObj [(''severity'', JStr ''High''), (''title'', JStr ''Integer Overflow'')],
      JObj [(''severity'', JStr ''Critical'')],
      JObj [(''title'', JStr ''Unprotected Selfdestruct'')],
      JObj [(''severity'', JStr ''Medium'')]] =
     Inr [(''High'', [JObj [(''severity'', JStr ''High''), (''title'', JStr ''Integer Overflow'')]]),
          (''Medium'', [JObj [(''severity'', JStr ''Medium'')]]),
          (''Low'', [JObj [(''severity'', JStr ''Critical'')],
                     JObj [(''title'', JStr ''Unprotected Selfdestruct'')]])]"
proof -
  let ?xs = "[JObj [(''severity'', JStr ''High''), (''title'', JStr ''Integer Overflow'')],
      JObj [(''severity'', JStr ''Critical'')],
      JObj [(''title'', JStr ''Unprotected Selfdestruct'')],
      JObj [(''severity'', JStr ''Medium'')]]"
  have g: "list_all groupable ?xs"
    by simp
  have s: "spec_group (JObj [(''severity'', JStr ''High''), (''title'', JStr ''Integer Overflow'')]) = ''High''"
    "spec_group (JObj [(''severity'', JStr ''Critical'')]) = ''Low''"
    "spec_group (JObj [(''title'', JStr ''Unprotected Selfdestruct'')]) = ''Low''"
    "spec_group (JObj [(''severity'', JStr ''Medium'')]) = ''Medium''"
    by (simp_all add: spec_group_def)
  from mythril_severity_groups [OF g] obtain g where
    "categorize_mythril_findings ?xs = Inr g"
    "g = [(''High'', filter (\<lambda>i. spec_group i = ''High'') ?xs),
          (''Medium'', filter (\<lambda>i. spec_group i = ''Medium'') ?xs),
          (''Low'', filter (\<lambda>i. spec_group i = ''Low'') ?xs)]"
    by blast
  then have "categorize_mythril_findings ?xs =
     Inr [(''High'', [JObj [(''severity'', JStr ''High''), (''title'', JStr ''Integer Overflow'')]]),
          (''Medium'', [JObj [(''severity'', JStr ''Medium'')]]),
          (''Low'', [JObj [(''severity'', JStr ''Critical'')],
                     JObj [(''title'', JStr ''Unprotected Selfdestruct'')]])]"
    by (simp add: s)
  with g show ?thesis
    by blast
qed

text \<open>
  Claim C10. For a list of issue records the three groups partition the list: as
  multisets the groups add up to the input, so each issue is in exactly one group. The
  summary has one record for each issue, each with severity High, Medium or Low, and
  that list of records is what \<^verbatim>\<open>mythril-summary.json\<close> receives.
\<close>

theorem mythril_groups_partition:
  assumes "list_all groupable xs"
  shows "\<exists>g rs. categorize_mythril_findings xs = Inr g \<and>
           map fst g = [''High'', ''Medium'', ''Low''] \<and>
           mset (group_get g ''High'') + mset (group_get g ''Medium'') +
             mset (group_get g ''Low'') = mset xs \<and>
           all_issues g = Inr rs \<and>
           length rs = length xs \<and>
           list_all (\<lambda>r. py_subscript r ''severity'' = Inr (JStr ''High'') \<or>
                         py_subscript r ''severity'' = Inr (JStr ''Medium'') \<or>
                         py_subscript r ''severity'' = Inr (JStr ''Low'')) rs \<and>
           hd (fst (generate_mythril_summary g dir)) =
             (os_path_join dir ''mythril-summary.json'', JsonDump (JArr rs))"
proof -
  from all_issues_groups [OF assms] obtain rs where
    rs: "all_issues (groups_of xs) = Inr rs" "length rs = length xs"
      "list_all (\<lambda>r. py_subscript r ''severity'' = Inr (JStr ''High'') \<or>
                         py_subscript r ''severity'' = Inr (JStr ''Medium'') \<or>
                         py_subscript r ''severity'' = Inr (JStr ''Low'')) rs"
    by blast
  have f: "hd (fst (generate_mythril_summary (groups_of xs) dir)) =
          (os_path_join dir ''mythril-summary.json'', JsonDump (JArr rs))"
    by (simp add: generate_mythril_summary_def Let_def rs(1) split: prod.splits)
  have k: "map fst (groups_of xs) = [''High'', ''Medium'', ''Low'']"
    by (simp add: groups_of_def)
  have p: "mset (group_get (groups_of xs) ''High'') +
      mset (group_get (groups_of xs) ''Medium'') + mset (group_get (groups_of xs) ''Low'') =
      mset xs"
    by (simp only: group_get_groups_of groups_partition)
  note c = categorize_mythril_groupable [OF assms]
  show ?thesis
    by (rule exI [of _ "groups_of xs"], rule exI [of _ rs]) (intro conjI c k p rs f)
qed


theorem mythril_groups_partition_witness:
  "list_all groupable
     [JObj [(''severity'', JStr ''High''), (''filename'', JStr ''contracts/Vault.sol'')],
      JObj [(''severity'', JStr ''Critical'')],
      JObj [(''severity'', JStr ''High''), (''filename'', JStr ''contracts/Vault.sol'')]] \<and>
   (\<exists>g rs.
      categorize_mythril_findings
        [JObj [(''severity'', JStr ''High''), (''filename'', JStr ''contracts/Vault.sol'')],
         JObj [(''severity'', JStr ''Critical'')],
         JObj [(''severity'', JStr ''High''), (''filename'', JStr ''contracts/Vault.sol'')]] =
        Inr g \<and>
      mset (group_get g ''High'') + mset (group_get g ''Medium'') + mset (group_get g ''Low'') =
        mset [JObj [(''severity'', JStr ''High''), (''filename'', JStr ''contracts/Vault.sol'')],
              JObj [(''severity'', JStr ''Critical'')],
              JObj [(''severity'', JStr ''High''), (''filename'', JStr ''contracts/Vault.sol'')]] \<and>
      all_issues g = Inr rs \<and>
      length rs = 3 \<and>
      hd (fst (generate_mythril_summary g ''reports'')) =
        (''reports/mythril-summary.json'', JsonDump (JArr rs)))"
proof -
  let ?xs = "[JObj [(''severity'', JStr ''High''), (''filename'', JStr ''contracts/Vault.sol'')],
      JObj [(''severity'', JStr ''Critical'')],
      JObj [(''severity'', JStr ''High''), (''filename'', JStr ''contracts/Vault.sol'')]]"
  have g: "list_all groupable ?xs"
    by simp
  have p: "os_path_join ''reports'' ''mythril-summary.json'' = ''reports/mythril-summary.json''"
    by (simp add: os_path_join_def)
  from mythril_groups_partition [OF g, of "''reports''"] obtain g rs where
    "categorize_mythril_findings ?xs = Inr g"
    "mset (group_get g ''High'') + mset (group_get g ''Medium'') + mset (group_get g ''Low'') =
       mset ?xs"
    "all_issues g = Inr rs" "length rs = length ?xs"
    "hd (fst (generate_mythril_summary g ''reports'')) =
       (os_path_join ''reports'' ''mythril-summary.json'', JsonDump (JArr rs))"
    by blast
  then have "categorize_mythril_findings ?xs = Inr g \<and>
      mset (group_get g ''High'') + mset (group_get g ''Medium'') + mset (group_get g ''Low'') =
        mset ?xs \<and>
      all_issues g = Inr rs \<and> length rs = 3 \<and>
      hd (fst (generate_mythril_summary g ''reports'')) =
        (''reports/mythril-summary.json'', JsonDump (JArr rs))"
    unfolding p by simp
  then have "\<exists>g rs. categorize_mythril_findings ?xs = Inr g \<and>
      mset (group_get g ''High'') + mset (group_get g ''Medium'') + mset (group_get g ''Low'') =
        mset ?xs \<and>
      all_issues g = Inr rs \<and> length rs = 3 \<and>
      hd (fst (generate_mythril_summary g ''reports'')) =
        (''reports/mythril-summary.json'', JsonDump (JArr rs))"
    by (intro exI)
  with g show ?thesis
    by (intro conjI)
qed






end
